theory Spec2Isabelle
  imports Complex_Main "HOL-Library.Log_Nat"
begin

section \<open>The hard-sample training loop of \<open>lss_train.py\<close>\<close>

text \<open>
  \<open>lss_train.py\<close> is a script: its variables are module globals and its control flow is one
  \<open>while\<close> loop between an assembly phase and a final report. The model starts at line 112,
  with the feature records and the feature count that \<open>lss_features.extract_features\<close> has
  returned, and is a record of the globals, passed from statement to statement.

  The calls into scikit-learn (\<open>PCA\<close>, \<open>GridSearchCV\<close>, \<open>precision_recall_fscore_support\<close>)
  and into \<open>lss_data\<close> (\<open>assemble_initial_train_set\<close>, which is not among the sources) are
  parameters of the model, the fields of the record \<open>env\<close>. Each returns an error or its
  result, so every theorem holds for any classifier, any projection and any initial split.
  Every such call, and every line printed, is recorded with its arguments in the state,
  at the place where it is made. The draws of \<open>random.sample\<close> come from a tape that is
  part of the state, so every theorem holds for any sequence of draws. The statements that
  only print a report (\<open>classification_report\<close>, \<open>confusion_matrix\<close>) and the import of
  \<open>joblib\<close> are taken to succeed.

  Labels are integers and feature rows are lists of reals. The metrics and the threshold
  are reals, which the script only compares. The learning rate is a double: its product
  with a length is rounded as IEEE 754 prescribes before \<open>int()\<close> truncates it.
\<close>

subsection \<open>Errors and sequencing\<close>

datatype error = ValueError | OverflowError | NameError | IndexError | ExternalError

fun on_success :: "error + 'a \<Rightarrow> ('a \<Rightarrow> error + 'b) \<Rightarrow> error + 'b" where
  "on_success (Inl e) f = Inl e"
| "on_success (Inr v) f = f v"

subsection \<open>Doubles\<close>

text \<open>
  A Python \<open>float\<close>: a finite double \<open>Finite m e\<close> of value \<open>m * 2^e\<close>, an infinity, or
  not-a-number. A double proper has a mantissa of at most 53 bits, an exponent of at
  least -1074 and a magnitude below \<open>2^1024\<close>. The sign of a zero is not kept: nothing in
  the script depends on it.
\<close>

datatype double = Finite int int | PlusInfinity | MinusInfinity | NaN

definition finite_value :: "int \<Rightarrow> int \<Rightarrow> real" where
  "finite_value m e = (if 0 \<le> e then real_of_int m * 2 ^ nat e else real_of_int m / 2 ^ nat (- e))"

definition is_double :: "double \<Rightarrow> bool" where
  "is_double d = (case d of
       Finite m e \<Rightarrow> bitlen \<bar>m\<bar> \<le> 53 \<and> - 1074 \<le> e \<and> bitlen \<bar>m\<bar> + e \<le> 1024
     | _ \<Rightarrow> True)"

text \<open>\<open>m / 2^s\<close> rounded to the nearest integer, a tie to the even one.\<close>

definition round_half_even :: "int \<Rightarrow> nat \<Rightarrow> int" where
  "round_half_even m s =
     (let q = m div 2 ^ s; r = m mod 2 ^ s
      in if 2 * r < 2 ^ s then q
         else if 2 * r > 2 ^ s then q + 1
         else if even q then q else q + 1)"

text \<open>
  The double nearest to \<open>m * 2^e\<close>: the mantissa is cut to 53 bits, or to fewer where the
  exponent would fall below -1074, and a result of magnitude \<open>2^1024\<close> or more is an
  infinity.
\<close>

definition round_double :: "int \<Rightarrow> int \<Rightarrow> double" where
  "round_double m e =
     (let s = max (bitlen \<bar>m\<bar> - 53) (- 1074 - e);
          m' = (if s \<le> 0 then m else round_half_even m (nat s));
          e' = (if s \<le> 0 then e else e + s)
      in if bitlen \<bar>m'\<bar> + e' \<le> 1024 then Finite m' e'
         else if 0 < m' then PlusInfinity else MinusInfinity)"

fun double_mul :: "double \<Rightarrow> double \<Rightarrow> double" where
  "double_mul (Finite m1 e1) (Finite m2 e2) = round_double (m1 * m2) (e1 + e2)"
| "double_mul NaN b = NaN"
| "double_mul a NaN = NaN"
| "double_mul (Finite m e) PlusInfinity =
     (if m = 0 then NaN else if 0 < m then PlusInfinity else MinusInfinity)"
| "double_mul (Finite m e) MinusInfinity =
     (if m = 0 then NaN else if 0 < m then MinusInfinity else PlusInfinity)"
| "double_mul PlusInfinity (Finite m e) =
     (if m = 0 then NaN else if 0 < m then PlusInfinity else MinusInfinity)"
| "double_mul MinusInfinity (Finite m e) =
     (if m = 0 then NaN else if 0 < m then MinusInfinity else PlusInfinity)"
| "double_mul PlusInfinity PlusInfinity = PlusInfinity"
| "double_mul PlusInfinity MinusInfinity = MinusInfinity"
| "double_mul MinusInfinity PlusInfinity = MinusInfinity"
| "double_mul MinusInfinity MinusInfinity = PlusInfinity"

text \<open>
  In \<open>float * int\<close> the integer is first converted to a double, which raises
  \<open>OverflowError\<close> when it is too large.
\<close>

definition double_of_nat :: "nat \<Rightarrow> error + double" where
  "double_of_nat n =
     (case round_double (int n) 0 of
        Finite m e \<Rightarrow> Inr (Finite m e)
      | _ \<Rightarrow> Inl OverflowError)"

text \<open>
  \<open>int()\<close> of a float truncates towards zero, and raises on not-a-number and on an
  infinity.
\<close>

fun py_int :: "double \<Rightarrow> error + int" where
  "py_int NaN = Inl ValueError"
| "py_int PlusInfinity = Inl OverflowError"
| "py_int MinusInfinity = Inl OverflowError"
| "py_int (Finite m e) =
     Inr (if 0 \<le> e then m * 2 ^ nat e
          else if 0 \<le> m then m div 2 ^ nat (- e)
          else - ((- m) div 2 ^ nat (- e)))"

subsection \<open>Data\<close>

type_synonym label = int
type_synonym row = "real list"
type_synonym matrix = "row list"

text \<open>
  What the script calls or prints, in order, each call with its arguments (the verbose
  timing lines are left out).
\<close>

datatype ('p, 'c) event =
    Call_pca_fit matrix
  | Call_pca_transform 'p matrix
  | Call_clf_fit matrix "label list"
  | Call_clf_predict 'c matrix
  | Call_joblib_dump 'c
  | Print_on_epoch int nat nat
  | Print_picked nat nat
  | Print_end_of_epoch int
  | Print_training_complete int

text \<open>The options of the command line and the external primitives.\<close>

record ('p, 'c) env =
  max_epochs :: int
  convergence_threshold :: real
  initial_train_size :: int
  learning_rate :: double
  assemble_initial_train_set :: "matrix \<Rightarrow> label list \<Rightarrow> int \<Rightarrow> error + (matrix \<times> label list)"
  pca_fit :: "matrix \<Rightarrow> error + 'p"
  pca_transform :: "'p \<Rightarrow> matrix \<Rightarrow> error + matrix"
  clf_fit :: "matrix \<Rightarrow> label list \<Rightarrow> error + 'c"
  clf_predict :: "'c \<Rightarrow> matrix \<Rightarrow> error + label list"
  precision_recall_fscore_support :: "label list \<Rightarrow> label list \<Rightarrow> error + (real list \<times> real list)"

text \<open>
  The module globals from line 113 on. \<open>clf\<close>, \<open>y_pred\<close>, \<open>hard_samples_chosen\<close> and
  \<open>convergence\<close> are unbound (\<open>None\<close>) until their first assignment inside the loop.
  \<open>rng\<close> is the tape of raw draws that the \<open>random\<close> module will deliver, \<open>out\<close> the
  events so far.
\<close>

record ('p, 'c) state =
  X :: matrix
  y :: "label list"
  X_test :: matrix
  y_test :: "label list"
  X_train :: matrix
  y_train :: "label list"
  pca :: 'p
  converged :: bool
  convergence :: "bool option"
  current_epoch :: int
  clf :: "'c option"
  y_pred :: "label list option"
  hard_samples_chosen :: "nat list option"
  rng :: "nat list"
  out :: "('p, 'c) event list"

datatype 's flow = Break 's | Next 's

text \<open>
  A call of an external primitive: on success its event is recorded and its result
  returned with the new state. A printed line is recorded likewise.
\<close>

definition recorded ::
  "('p, 'c) event \<Rightarrow> error + 'a \<Rightarrow> ('p, 'c) state \<Rightarrow> error + ('a \<times> ('p, 'c) state)" where
  "recorded ev result s = on_success result (\<lambda>v. Inr (v, s\<lparr>out := out s @ [ev]\<rparr>))"

definition call_pca_transform ::
  "('p, 'c) env \<Rightarrow> 'p \<Rightarrow> matrix \<Rightarrow> ('p, 'c) state \<Rightarrow> error + (matrix \<times> ('p, 'c) state)" where
  "call_pca_transform E p m s = recorded (Call_pca_transform p m) (pca_transform E p m) s"

definition call_clf_fit ::
  "('p, 'c) env \<Rightarrow> matrix \<Rightarrow> label list \<Rightarrow> ('p, 'c) state \<Rightarrow> error + ('c \<times> ('p, 'c) state)" where
  "call_clf_fit E m ys s = recorded (Call_clf_fit m ys) (clf_fit E m ys) s"

definition call_clf_predict ::
  "('p, 'c) env \<Rightarrow> 'c \<Rightarrow> matrix \<Rightarrow> ('p, 'c) state \<Rightarrow> error + (label list \<times> ('p, 'c) state)" where
  "call_clf_predict E c m s = recorded (Call_clf_predict c m) (clf_predict E c m) s"

definition print_line :: "('p, 'c) event \<Rightarrow> ('p, 'c) state \<Rightarrow> ('p, 'c) state" where
  "print_line ev s = s\<lparr>out := out s @ [ev]\<rparr>"

subsection \<open>Assembling the full set (lines 112 to 127)\<close>

text \<open>
  \<open>X[i,:] = element['features']\<close> stores a vector of the row's length, broadcasts a vector
  of length one, and raises otherwise.
\<close>

definition assign_row :: "nat \<Rightarrow> row \<Rightarrow> error + row" where
  "assign_row feature_count v =
     (if length v = feature_count then Inr v
      else if length v = 1 then Inr (replicate feature_count (hd v))
      else Inl ValueError)"

fun fill_X :: "nat \<Rightarrow> (row \<times> label) list \<Rightarrow> error + matrix" where
  "fill_X feature_count [] = Inr []"
| "fill_X feature_count (element # rest) =
     on_success (assign_row feature_count (fst element)) (\<lambda>r.
     on_success (fill_X feature_count rest) (\<lambda>rs. Inr (r # rs)))"

definition fill_y :: "(row \<times> label) list \<Rightarrow> label list" where
  "fill_y feature_dataset = map snd feature_dataset"

subsection \<open>The convergence check (line 191)\<close>

definition all_above :: "real list \<Rightarrow> real \<Rightarrow> bool" where
  "all_above v t = list_all (\<lambda>m. m > t) v"

definition convergence_check :: "real list \<Rightarrow> real list \<Rightarrow> real \<Rightarrow> bool" where
  "convergence_check precision recall threshold =
     (all_above precision threshold \<and> all_above recall threshold)"

subsection \<open>Hard-sample selection (lines 196 to 206)\<close>

definition hard_samples_indexes :: "label list \<Rightarrow> label list \<Rightarrow> nat list" where
  "hard_samples_indexes yt yp =
     map fst (filter (\<lambda>(idx, targets). fst targets \<noteq> snd targets)
                     (enumerate 0 (zip yt yp)))"

text \<open>The requested number of hard samples, \<open>int(learning_rate*len(hard_samples_indexes))\<close>.\<close>

definition requested_count :: "double \<Rightarrow> nat \<Rightarrow> error + int" where
  "requested_count rate n = on_success (double_of_nat n) (\<lambda>d. py_int (double_mul rate d))"

text \<open>
  \<open>random.sample(population, k)\<close>: \<open>ValueError\<close> unless \<open>0 <= k <= n\<close>; otherwise \<open>k\<close>
  draws, each taking the drawn position out of the pool by moving the pool's last
  element into it (for a large population CPython records the drawn positions in a set
  instead, to the same effect: \<open>k\<close> pairwise different positions). \<open>randbelow n\<close> reads the
  next raw draw from the tape.
\<close>

fun randbelow :: "nat \<Rightarrow> nat list \<Rightarrow> nat \<times> nat list" where
  "randbelow n [] = (0, [])"
| "randbelow n (r # g) = (r mod n, g)"

fun sample_pool :: "'a list \<Rightarrow> nat \<Rightarrow> nat list \<Rightarrow> 'a list \<times> nat list" where
  "sample_pool pool 0 g = ([], g)"
| "sample_pool pool (Suc k) g =
     (let (j, g1) = randbelow (length pool) g;
          (result, g2) = sample_pool (butlast (pool[j := last pool])) k g1
      in (pool ! j # result, g2))"

definition random_sample :: "'a list \<Rightarrow> int \<Rightarrow> nat list \<Rightarrow> error + ('a list \<times> nat list)" where
  "random_sample population k g =
     (if \<not> (0 \<le> k \<and> k \<le> int (length population)) then Inl ValueError
      else Inr (sample_pool population (nat k) g))"

text \<open>Indexing an array with a list of positions, as in \<open>X_test[hard_samples_chosen]\<close>.\<close>

definition take_rows :: "'a list \<Rightarrow> nat list \<Rightarrow> error + 'a list" where
  "take_rows a idxs =
     (if list_all (\<lambda>i. i < length a) idxs then Inr (map (\<lambda>i. a ! i) idxs)
      else Inl IndexError)"

subsection \<open>One epoch (lines 154 to 210)\<close>

text \<open>Projection, fit, prediction and metrics: lines 154 to 189.\<close>

definition train_and_evaluate ::
  "('p, 'c) env \<Rightarrow> ('p, 'c) state \<Rightarrow> error + (('p, 'c) state \<times> real list \<times> real list)" where
  "train_and_evaluate E s =
     (let s0 = print_line (Print_on_epoch (current_epoch s) (length (X_train s)) (length (X_test s))) s
      in on_success (call_pca_transform E (pca s0) (X_train s0) s0) (\<lambda>(X_train_pca, s1).
         on_success (call_pca_transform E (pca s1) (X_test s1) s1) (\<lambda>(X_test_pca, s2).
         on_success (call_clf_fit E X_train_pca (y_train s2) s2) (\<lambda>(c, s3).
         on_success (call_clf_predict E c X_test_pca (s3\<lparr>clf := Some c\<rparr>)) (\<lambda>(yp, s4).
         on_success (precision_recall_fscore_support E (y_test s4) yp) (\<lambda>(precision, recall).
           Inr (s4\<lparr>y_pred := Some yp\<rparr>, precision, recall)))))))"

text \<open>Selecting the hard samples and appending them: lines 196 to 210.\<close>

definition select_hard_samples :: "('p, 'c) env \<Rightarrow> ('p, 'c) state \<Rightarrow> error + ('p, 'c) state" where
  "select_hard_samples E s =
     (case y_pred s of
        None \<Rightarrow> Inl NameError
      | Some yp \<Rightarrow>
          let indexes = hard_samples_indexes (y_test s) yp in
          on_success (requested_count (learning_rate E) (length indexes)) (\<lambda>k.
          on_success (random_sample indexes k (rng s)) (\<lambda>(chosen, g).
          on_success (take_rows (X_test s) chosen) (\<lambda>X_hard_samples.
          on_success (take_rows (y_test s) chosen) (\<lambda>y_hard_samples.
            Inr (s\<lparr>hard_samples_chosen := Some chosen,
                    X_train := X_train s @ X_hard_samples,
                    y_train := y_train s @ y_hard_samples,
                    rng := g,
                    out := out s @ [Print_picked (length chosen) (length indexes),
                                    Print_end_of_epoch (current_epoch s)],
                    current_epoch := current_epoch s + 1\<rparr>))))))"

text \<open>
  The loop body. On convergence the script assigns \<open>convergence\<close> (not \<open>converged\<close>) and
  leaves the loop with \<open>break\<close>.
\<close>

definition epoch_body :: "('p, 'c) env \<Rightarrow> ('p, 'c) state \<Rightarrow> error + ('p, 'c) state flow" where
  "epoch_body E s =
     on_success (train_and_evaluate E s) (\<lambda>(s1, precision, recall).
       if convergence_check precision recall (convergence_threshold E)
       then Inr (Break (s1\<lparr>convergence := Some True\<rparr>))
       else on_success (select_hard_samples E s1) (\<lambda>s2. Inr (Next s2)))"

text \<open>The events of the first part of an epoch, given what the calls returned.\<close>

definition evaluation_events ::
  "('p, 'c) state \<Rightarrow> matrix \<Rightarrow> matrix \<Rightarrow> 'c \<Rightarrow> ('p, 'c) event list" where
  "evaluation_events s X_train_pca X_test_pca c =
     [Print_on_epoch (current_epoch s) (length (X_train s)) (length (X_test s)),
      Call_pca_transform (pca s) (X_train s), Call_pca_transform (pca s) (X_test s),
      Call_clf_fit X_train_pca (y_train s), Call_clf_predict c X_test_pca]"

lemma on_success_Inr:
  "on_success m f = Inr r \<longleftrightarrow> (\<exists>v. m = Inr v \<and> f v = Inr r)"
  by (cases m) simp_all

lemma recorded_Inr:
  "recorded ev result s = Inr (v, s') \<longleftrightarrow> result = Inr v \<and> s' = s\<lparr>out := out s @ [ev]\<rparr>"
  by (cases result) (auto simp: recorded_def)

lemma train_and_evaluate_frame:
  assumes "train_and_evaluate E s = Inr (s1, precision, recall)"
  shows "\<exists>X_train_pca X_test_pca c yp.
            pca_transform E (pca s) (X_train s) = Inr X_train_pca
          \<and> pca_transform E (pca s) (X_test s) = Inr X_test_pca
          \<and> clf_fit E X_train_pca (y_train s) = Inr c
          \<and> clf_predict E c X_test_pca = Inr yp
          \<and> precision_recall_fscore_support E (y_test s) yp = Inr (precision, recall)
          \<and> s1 = s\<lparr>clf := Some c, y_pred := Some yp,
                    out := out s @ evaluation_events s X_train_pca X_test_pca c\<rparr>"
  using assms
  unfolding train_and_evaluate_def call_pca_transform_def call_clf_fit_def call_clf_predict_def
    print_line_def evaluation_events_def
  by (auto simp: on_success_Inr recorded_Inr Let_def)

lemma select_hard_samples_epoch:
  assumes "select_hard_samples E s = Inr s2"
  shows "current_epoch s2 = current_epoch s + 1"
  using assms unfolding select_hard_samples_def
  by (auto simp: on_success_Inr Let_def split: option.splits)

lemma epoch_body_Next_epoch:
  assumes "epoch_body E s = Inr (Next s')"
  shows "current_epoch s' = current_epoch s + 1"
proof -
  from assms obtain s1 precision recall where
    te: "train_and_evaluate E s = Inr (s1, precision, recall)" and
    sel: "select_hard_samples E s1 = Inr s'"
    unfolding epoch_body_def
    by (auto simp: on_success_Inr split: if_splits)
  from train_and_evaluate_frame[OF te] have "current_epoch s1 = current_epoch s" by auto
  with select_hard_samples_epoch[OF sel] show ?thesis by simp
qed

subsection \<open>The loop (lines 151 to 210)\<close>

function epoch_loop :: "('p, 'c) env \<Rightarrow> ('p, 'c) state \<Rightarrow> error + ('p, 'c) state" where
  "epoch_loop E s =
     (if current_epoch s < max_epochs E \<and> \<not> converged s then
        (case epoch_body E s of
           Inl e \<Rightarrow> Inl e
         | Inr (Break s') \<Rightarrow> Inr s'
         | Inr (Next s') \<Rightarrow> epoch_loop E s')
      else Inr s)"
  by pat_completeness auto
termination
proof (relation "measure (\<lambda>(E, s). nat (max_epochs E - current_epoch s))")
  show "wf (measure (\<lambda>(E :: ('p, 'c) env, s :: ('p, 'c) state). nat (max_epochs E - current_epoch s)))"
    by simp
next
  fix E :: "('p, 'c) env" and s r s'
  assume "current_epoch s < max_epochs E \<and> \<not> converged s"
    and "epoch_body E s = Inr r" and "r = Next s'"
  then show "((E, s'), (E, s)) \<in> measure (\<lambda>(E, s). nat (max_epochs E - current_epoch s))"
    using epoch_body_Next_epoch[of E s s'] by simp
qed

declare epoch_loop.simps [simp del]

subsection \<open>The whole script\<close>

text \<open>Lines 112 to 152: the full set, the initial training set, the projection, the counters.\<close>

definition initialise ::
  "('p, 'c) env \<Rightarrow> nat \<Rightarrow> (row \<times> label) list \<Rightarrow> nat list \<Rightarrow> error + ('p, 'c) state" where
  "initialise E feature_count feature_dataset g =
     on_success (fill_X feature_count feature_dataset) (\<lambda>X_full.
     on_success (assemble_initial_train_set E X_full (fill_y feature_dataset) (initial_train_size E))
       (\<lambda>(X_initial, y_initial).
     on_success (pca_fit E X_full) (\<lambda>p.
       Inr \<lparr>X = X_full, y = fill_y feature_dataset,
            X_test = X_full, y_test = fill_y feature_dataset,
            X_train = X_initial, y_train = y_initial,
            pca = p, converged = False, convergence = None, current_epoch = 0,
            clf = None, y_pred = None, hard_samples_chosen = None,
            rng = g, out = [Call_pca_fit X_full]\<rparr>)))"

text \<open>
  Lines 214 to 239. Reading \<open>clf\<close> while it is unbound raises \<open>NameError\<close>. The result is
  \<open>Inr\<close> exactly when \<open>joblib.dump\<close> has written the model, which is the last event then.
\<close>

definition final_report :: "('p, 'c) env \<Rightarrow> ('p, 'c) state \<Rightarrow> error + ('p, 'c) state" where
  "final_report E s =
     (let s0 = print_line (Print_training_complete (current_epoch s)) s
      in on_success (call_pca_transform E (pca s0) (X s0) s0) (\<lambda>(X_pca, s1).
           case clf s1 of
             None \<Rightarrow> Inl NameError
           | Some c \<Rightarrow>
               on_success (call_clf_predict E c X_pca s1) (\<lambda>(yp, s2).
                 Inr (print_line (Call_joblib_dump c) (s2\<lparr>y_pred := Some yp\<rparr>)))))"

definition lss_train ::
  "('p, 'c) env \<Rightarrow> nat \<Rightarrow> (row \<times> label) list \<Rightarrow> nat list \<Rightarrow> error + ('p, 'c) state" where
  "lss_train E feature_count feature_dataset g =
     on_success (initialise E feature_count feature_dataset g) (\<lambda>s0.
     on_success (epoch_loop E s0) (\<lambda>s1. final_report E s1))"

text \<open>The states in which the loop condition is evaluated, from a state \<open>s0\<close> on.\<close>

inductive loop_head :: "('p, 'c) env \<Rightarrow> ('p, 'c) state \<Rightarrow> ('p, 'c) state \<Rightarrow> bool"
  for E :: "('p, 'c) env" and s0 :: "('p, 'c) state" where
  first: "loop_head E s0 s0"
| again: "loop_head E s0 s \<Longrightarrow> current_epoch s < max_epochs E \<Longrightarrow> \<not> converged s \<Longrightarrow>
          epoch_body E s = Inr (Next s') \<Longrightarrow> loop_head E s0 s'"

subsection \<open>Precision and recall as scikit-learn computes them\<close>

text \<open>
  \<open>precision_recall_fscore_support(y_true, y_pred)\<close> of scikit-learn, as its documentation
  describes it: one entry per label in the sorted union of the labels of both vectors,
  precision = tp / (number predicted as the label), recall = tp / (number truly of the
  label), and 0 where the denominator is 0; \<open>ValueError\<close> when the lengths differ.
\<close>

definition true_positives :: "label \<Rightarrow> label list \<Rightarrow> label list \<Rightarrow> nat" where
  "true_positives c yt yp = length (filter (\<lambda>(a, b). a = c \<and> b = c) (zip yt yp))"

definition occurrences :: "label \<Rightarrow> label list \<Rightarrow> nat" where
  "occurrences c ys = length (filter (\<lambda>a. a = c) ys)"

definition ratio_or_zero :: "nat \<Rightarrow> nat \<Rightarrow> real" where
  "ratio_or_zero a b = (if b = 0 then 0 else real a / real b)"

definition sk_precision_recall :: "label list \<Rightarrow> label list \<Rightarrow> error + (real list \<times> real list)" where
  "sk_precision_recall yt yp =
     (if length yt \<noteq> length yp then Inl ValueError
      else let labels = sorted_list_of_set (set yt \<union> set yp) in
        Inr (map (\<lambda>c. ratio_or_zero (true_positives c yt yp) (occurrences c yp)) labels,
             map (\<lambda>c. ratio_or_zero (true_positives c yt yp) (occurrences c yt)) labels))"

section \<open>Patient objects of \<open>lic_patient.py\<close>\<close>

text \<open>
  Dictionaries are objects on a heap, named by their address. \<open>Volume\<close> and \<open>LabelMap\<close>
  objects have the same three attributes and are one record here.
\<close>

type_synonym addr = nat

record ('h, 'd) scan =
  scan_id :: string
  header :: 'h
  data :: 'd

record 'o heap =
  dicts :: "addr \<Rightarrow> (string \<rightharpoonup> 'o)"
  next_free :: addr

text \<open>A dictionary display \<open>{}\<close> allocates a fresh, empty dictionary.\<close>

definition new_dict :: "'o heap \<Rightarrow> addr \<times> 'o heap" where
  "new_dict h = (next_free h,
                 h\<lparr>dicts := (dicts h)(next_free h := Map.empty), next_free := Suc (next_free h)\<rparr>)"

text \<open>
  The default values of \<open>__init__\<close>'s parameters are evaluated once, when the \<open>def\<close>
  statement runs: two dictionaries, kept by the function object.
\<close>

record defaults =
  default_volumes :: addr
  default_labelmaps :: addr

definition define_Patient :: "'o heap \<Rightarrow> defaults \<times> 'o heap" where
  "define_Patient h =
     (let (a, h1) = new_dict h; (b, h2) = new_dict h1
      in (\<lparr>default_volumes = a, default_labelmaps = b\<rparr>, h2))"

record patient =
  patient_id :: string
  volumes :: addr
  labelmaps :: addr
  cached_total_volume :: "(string \<times> real) list option"

text \<open>\<open>Patient(id, volumes, labelmaps)\<close>; an argument left out is \<open>None\<close> here.\<close>

definition Patient_init :: "defaults \<Rightarrow> string \<Rightarrow> addr option \<Rightarrow> addr option \<Rightarrow> patient" where
  "Patient_init D ident vols labs =
     \<lparr>patient_id = ident,
      volumes = (case vols of None \<Rightarrow> default_volumes D | Some a \<Rightarrow> a),
      labelmaps = (case labs of None \<Rightarrow> default_labelmaps D | Some a \<Rightarrow> a),
      cached_total_volume = None\<rparr>"

definition add_volume :: "('h, 'd) scan heap \<Rightarrow> patient \<Rightarrow> ('h, 'd) scan \<Rightarrow> ('h, 'd) scan heap" where
  "add_volume h self volume =
     h\<lparr>dicts := (dicts h)(volumes self := (dicts h (volumes self))(scan_id volume \<mapsto> volume))\<rparr>"

definition add_labelmap :: "('h, 'd) scan heap \<Rightarrow> patient \<Rightarrow> ('h, 'd) scan \<Rightarrow> ('h, 'd) scan heap" where
  "add_labelmap h self labelmap =
     h\<lparr>dicts := (dicts h)(labelmaps self := (dicts h (labelmaps self))(scan_id labelmap \<mapsto> labelmap))\<rparr>"

text \<open>Reading \<open>p.volumes\<close>: the dictionary at the address the attribute holds.\<close>

definition read_volumes :: "'o heap \<Rightarrow> patient \<Rightarrow> (string \<rightharpoonup> 'o)" where
  "read_volumes h p = dicts h (volumes p)"

section \<open>Auxiliary definitions\<close>

text \<open>The events of one complete, non-converged epoch, and the number of epochs begun.\<close>

definition epoch_events ::
  "('p, 'c) state \<Rightarrow> matrix \<Rightarrow> matrix \<Rightarrow> 'c \<Rightarrow> nat \<Rightarrow> nat \<Rightarrow> ('p, 'c) event list" where
  "epoch_events s X_train_pca X_test_pca c picked available =
     evaluation_events s X_train_pca X_test_pca c
       @ [Print_picked picked available, Print_end_of_epoch (current_epoch s)]"

fun is_on_epoch :: "('p, 'c) event \<Rightarrow> bool" where
  "is_on_epoch (Print_on_epoch n a b) = True"
| "is_on_epoch e = False"

definition iterations :: "('p, 'c) event list \<Rightarrow> nat" where
  "iterations evs = length (filter is_on_epoch evs)"

text \<open>The fits and the transforms of the projection among the events.\<close>

fun is_pca_fit :: "('p, 'c) event \<Rightarrow> bool" where
  "is_pca_fit (Call_pca_fit m) = True"
| "is_pca_fit e = False"

fun is_pca_transform :: "('p, 'c) event \<Rightarrow> bool" where
  "is_pca_transform (Call_pca_transform p m) = True"
| "is_pca_transform e = False"

fun transformed_by :: "'p \<Rightarrow> ('p, 'c) event \<Rightarrow> bool" where
  "transformed_by p (Call_pca_transform q m) = (q = p)"
| "transformed_by p e = False"

definition pca_fits :: "('p, 'c) event list \<Rightarrow> ('p, 'c) event list" where
  "pca_fits evs = filter is_pca_fit evs"

definition pca_transforms :: "('p, 'c) event list \<Rightarrow> ('p, 'c) event list" where
  "pca_transforms evs = filter is_pca_transform evs"

text \<open>
  The loop with a budget of body executions: \<open>None\<close> when the budget does not suffice.
\<close>

fun epoch_loop_within :: "nat \<Rightarrow> ('p, 'c) env \<Rightarrow> ('p, 'c) state \<Rightarrow> (error + ('p, 'c) state) option" where
  "epoch_loop_within 0 E s =
     (if current_epoch s < max_epochs E \<and> \<not> converged s then None else Some (Inr s))"
| "epoch_loop_within (Suc n) E s =
     (if current_epoch s < max_epochs E \<and> \<not> converged s then
        (case epoch_body E s of
           Inl e \<Rightarrow> Some (Inl e)
         | Inr (Break s') \<Rightarrow> Some (Inr s')
         | Inr (Next s') \<Rightarrow> epoch_loop_within n E s')
      else Some (Inr s))"

text \<open>
  The number of disagreements and the number of rows appended in an epoch that did not
  converge and ran to its end.
\<close>

definition hard_sample_summary ::
  "('p, 'c) state \<Rightarrow> error + ('p, 'c) state flow \<Rightarrow> (nat \<times> nat) option" where
  "hard_sample_summary s r =
     (case r of
        Inr (Next s') \<Rightarrow>
          (case y_pred s' of
             Some yp \<Rightarrow> Some (length (hard_samples_indexes (y_test s) yp),
                               length (X_train s') - length (X_train s))
           | None \<Rightarrow> None)
      | _ \<Rightarrow> None)"

text \<open>
  A small concrete run, used to instantiate the theorems: four samples of one feature, a
  classifier that always answers the first training label, the identity as projection,
  learning rate 0.5.
\<close>

definition demo_env :: "(unit, label) env" where
  "demo_env =
     \<lparr>max_epochs = 2, convergence_threshold = 95 / 100, initial_train_size = 2,
      learning_rate = Finite 1 (- 1),
      assemble_initial_train_set = (\<lambda>Xf yf n. Inr (take (nat n) Xf, take (nat n) yf)),
      pca_fit = (\<lambda>m. Inr ()),
      pca_transform = (\<lambda>p m. Inr m),
      clf_fit = (\<lambda>m ys. Inr (hd ys)),
      clf_predict = (\<lambda>c m. Inr (map (\<lambda>r. c) m)),
      precision_recall_fscore_support = sk_precision_recall\<rparr>"

definition demo_dataset :: "(row \<times> label) list" where
  "demo_dataset = [([0], 0), ([1], 1), ([2], 1), ([3], 0)]"

definition demo_s0 :: "(unit, label) state" where
  "demo_s0 =
     \<lparr>X = [[0], [1], [2], [3]], y = [0, 1, 1, 0],
      X_test = [[0], [1], [2], [3]], y_test = [0, 1, 1, 0],
      X_train = [[0], [1]], y_train = [0, 1],
      pca = (), converged = False, convergence = None, current_epoch = 0,
      clf = None, y_pred = None, hard_samples_chosen = None,
      rng = [5], out = [Call_pca_fit [[0], [1], [2], [3]]]\<rparr>"

text \<open>The run after its first and after its second epoch, and after the final report.\<close>

definition demo_s1 :: "(unit, label) state" where
  "demo_s1 =
     demo_s0\<lparr>X_train := [[0], [1], [2]], y_train := [0, 1, 1], current_epoch := 1,
             clf := Some 0, y_pred := Some [0, 0, 0, 0], hard_samples_chosen := Some [2],
             rng := [],
             out := out demo_s0 @ epoch_events demo_s0 (X_train demo_s0) (X_test demo_s0) 0 1 2\<rparr>"

definition demo_s2 :: "(unit, label) state" where
  "demo_s2 =
     demo_s1\<lparr>X_train := [[0], [1], [2], [1]], y_train := [0, 1, 1, 1], current_epoch := 2,
             hard_samples_chosen := Some [1],
             out := out demo_s1 @ epoch_events demo_s1 (X_train demo_s1) (X_test demo_s1) 0 1 2\<rparr>"

definition demo_sF :: "(unit, label) state" where
  "demo_sF =
     demo_s2\<lparr>out := out demo_s2 @ [Print_training_complete 2, Call_pca_transform () (X demo_s2),
                                   Call_clf_predict 0 (X demo_s2), Call_joblib_dump 0]\<rparr>"

text \<open>The same run with \<open>--epochs 0\<close>, with learning rate 2, 1 and -0.25.\<close>

definition demo_env0 :: "(unit, label) env" where
  "demo_env0 = demo_env\<lparr>max_epochs := 0\<rparr>"

definition demo_env2 :: "(unit, label) env" where
  "demo_env2 = demo_env\<lparr>learning_rate := Finite 1 1\<rparr>"

definition demo_env1 :: "(unit, label) env" where
  "demo_env1 = demo_env\<lparr>learning_rate := Finite 1 0\<rparr>"

definition demo_envN :: "(unit, label) env" where
  "demo_envN = demo_env\<lparr>learning_rate := Finite (- 1) (- 2)\<rparr>"

text \<open>
  A run of eleven samples, ten of which the first classifier gets wrong, with learning
  rate 0.3: the double nearest to 3/10 is \<open>5404319552844595 / 2^54\<close>.
\<close>

definition demo_env03 :: "(unit, label) env" where
  "demo_env03 = demo_env\<lparr>learning_rate := Finite 5404319552844595 (- 54)\<rparr>"

definition demo_t0 :: "(unit, label) state" where
  "demo_t0 =
     \<lparr>X = [0] # replicate 10 [1], y = 0 # replicate 10 1,
      X_test = [0] # replicate 10 [1], y_test = 0 # replicate 10 1,
      X_train = [[0], [1]], y_train = [0, 1],
      pca = (), converged = False, convergence = None, current_epoch = 0,
      clf = None, y_pred = None, hard_samples_chosen = None,
      rng = [5], out = [Call_pca_fit ([0] # replicate 10 [1])]\<rparr>"

text \<open>The labels of scenario A: 100 rows, 50 of each class.\<close>

definition balanced_labels :: "label list" where
  "balanced_labels = replicate 50 0 @ replicate 50 1"

text \<open>The concrete run with threshold 0 and a classifier that is right once on each class.\<close>

definition demo_envB :: "(unit, label) env" where
  "demo_envB = demo_env\<lparr>convergence_threshold := 0, clf_predict := (\<lambda>c m. Inr [0, 1, 0, 0])\<rparr>"

text \<open>The state in which that converging epoch leaves the loop.\<close>

definition demo_sB :: "(unit, label) state" where
  "demo_sB =
     demo_s0\<lparr>clf := Some 0, y_pred := Some [0, 1, 0, 0],
             out := out demo_s0 @ evaluation_events demo_s0 (X_train demo_s0) (X_test demo_s0) 0,
             convergence := Some True\<rparr>"

section \<open>Properties\<close>

subsection \<open>Sampling and indexing\<close>

lemma pool_remove:
  assumes "distinct xs" and "j < length xs"
  shows "distinct (butlast (xs[j := last xs])) \<and> set (butlast (xs[j := last xs])) = set xs - {xs ! j}
     \<and> length (butlast (xs[j := last xs])) = length xs - 1"
proof (cases xs rule: rev_cases)
  case Nil
  with assms show ?thesis by simp
next
  case (snoc zs l)
  show ?thesis
  proof (cases "j = length zs")
    case True
    with snoc assms show ?thesis by auto
  next
    case False
    with snoc assms have j: "j < length zs" by simp
    have "xs[j := last xs] = zs[j := l] @ [l]"
      using snoc j by (simp add: list_update_append)
    then have b: "butlast (xs[j := last xs]) = zs[j := l]" by simp
    have d: "distinct zs" "l \<notin> set zs" using assms snoc by auto
    have "distinct (zs[j := l])" using d by (simp add: distinct_list_update)
    moreover have "set (zs[j := l]) = insert l (set zs - {zs ! j})"
      using d j by (simp add: set_update_distinct)
    moreover have "xs ! j = zs ! j" using snoc j by (simp add: nth_append)
    moreover have "zs ! j \<noteq> l" using d j by (metis nth_mem)
    ultimately show ?thesis using b snoc d by auto
  qed
qed

lemma randbelow_less: "0 < n \<Longrightarrow> fst (randbelow n g) < n"
  by (cases g) simp_all

lemma sample_pool_props:
  "distinct pool \<Longrightarrow> k \<le> length pool \<Longrightarrow>
     length (fst (sample_pool pool k g)) = k \<and> distinct (fst (sample_pool pool k g))
     \<and> set (fst (sample_pool pool k g)) \<subseteq> set pool"
proof (induction k arbitrary: pool g)
  case 0
  then show ?case by simp
next
  case (Suc k)
  obtain j g1 where rb: "randbelow (length pool) g = (j, g1)" by (cases "randbelow (length pool) g")
  have "0 < length pool" using Suc.prems(2) by linarith
  from randbelow_less[OF this, of g] rb have j: "j < length pool" by simp
  let ?pool' = "butlast (pool[j := last pool])"
  obtain result g2 where sp: "sample_pool ?pool' k g1 = (result, g2)" by (cases "sample_pool ?pool' k g1")
  from pool_remove[OF Suc.prems(1) j] have
    p: "distinct ?pool'" "set ?pool' = set pool - {pool ! j}" "length ?pool' = length pool - 1"
    by simp_all
  have "k \<le> length ?pool'" using p Suc.prems by simp
  from Suc.IH[OF p(1) this, of g1] sp have
    r: "length result = k" "distinct result" "set result \<subseteq> set pool - {pool ! j}"
    using p by simp_all
  have "fst (sample_pool pool (Suc k) g) = pool ! j # result"
    using rb sp by simp
  then show ?case using r j by auto
qed

lemma hard_samples_indexes_distinct: "distinct (hard_samples_indexes yt yp)"
  unfolding hard_samples_indexes_def
  by (rule distinct_map_filter) (simp add: map_fst_enumerate)

lemma hard_samples_indexes_set:
  "set (hard_samples_indexes yt yp) = {i. i < length yt \<and> i < length yp \<and> yt ! i \<noteq> yp ! i}"
  unfolding hard_samples_indexes_def
  by (auto simp: in_set_enumerate_eq image_iff)

lemma take_rows_Inr:
  "list_all (\<lambda>i. i < length a) idxs \<Longrightarrow> take_rows a idxs = Inr (map (\<lambda>i. a ! i) idxs)"
  by (simp add: take_rows_def)

lemma take_rows_Inr_iff:
  "take_rows a idxs = Inr r \<longleftrightarrow> (list_all (\<lambda>i. i < length a) idxs \<and> r = map (\<lambda>i. a ! i) idxs)"
  by (auto simp: take_rows_def)

lemma random_sample_Inr:
  assumes "random_sample population k g = Inr (chosen, g')" and "distinct population"
  shows "0 \<le> k \<and> k \<le> int (length population) \<and> length chosen = nat k
         \<and> distinct chosen \<and> set chosen \<subseteq> set population"
proof -
  from assms(1) have k: "0 \<le> k" "k \<le> int (length population)"
    and sp: "sample_pool population (nat k) g = (chosen, g')"
    by (auto simp: random_sample_def split: if_splits)
  from k have "nat k \<le> length population" by simp
  from sample_pool_props[OF assms(2) this, of g] sp k show ?thesis by simp
qed

subsection \<open>One epoch\<close>

lemma all_above_nth: "all_above v t \<longleftrightarrow> (\<forall>c<length v. t < v ! c)"
  by (simp add: all_above_def list_all_length)

lemma epoch_body_Next_fields:
  assumes "epoch_body E s = Inr (Next s')"
  shows "\<exists>X_train_pca X_test_pca c yp precision recall k chosen g.
      pca_transform E (pca s) (X_train s) = Inr X_train_pca
    \<and> pca_transform E (pca s) (X_test s) = Inr X_test_pca
    \<and> clf_fit E X_train_pca (y_train s) = Inr c
    \<and> clf_predict E c X_test_pca = Inr yp
    \<and> precision_recall_fscore_support E (y_test s) yp = Inr (precision, recall)
    \<and> \<not> convergence_check precision recall (convergence_threshold E)
    \<and> requested_count (learning_rate E) (length (hard_samples_indexes (y_test s) yp)) = Inr k
    \<and> random_sample (hard_samples_indexes (y_test s) yp) k (rng s) = Inr (chosen, g)
    \<and> list_all (\<lambda>i. i < length (X_test s)) chosen
    \<and> list_all (\<lambda>i. i < length (y_test s)) chosen
    \<and> clf s' = Some c \<and> y_pred s' = Some yp \<and> hard_samples_chosen s' = Some chosen
    \<and> X_train s' = X_train s @ map (\<lambda>i. X_test s ! i) chosen
    \<and> y_train s' = y_train s @ map (\<lambda>i. y_test s ! i) chosen
    \<and> rng s' = g
    \<and> out s' = out s @ epoch_events s X_train_pca X_test_pca c (length chosen)
                         (length (hard_samples_indexes (y_test s) yp))
    \<and> current_epoch s' = current_epoch s + 1
    \<and> X s' = X s \<and> y s' = y s \<and> X_test s' = X_test s \<and> y_test s' = y_test s
    \<and> pca s' = pca s \<and> converged s' = converged s \<and> convergence s' = convergence s"
proof -
  from assms obtain s1 precision recall where
    te: "train_and_evaluate E s = Inr (s1, precision, recall)" and
    nc: "\<not> convergence_check precision recall (convergence_threshold E)" and
    sel: "select_hard_samples E s1 = Inr s'"
    unfolding epoch_body_def
    by (auto simp: on_success_Inr split: if_splits)
  from train_and_evaluate_frame[OF te] obtain X_train_pca X_test_pca c yp where
    calls: "pca_transform E (pca s) (X_train s) = Inr X_train_pca"
      "pca_transform E (pca s) (X_test s) = Inr X_test_pca"
      "clf_fit E X_train_pca (y_train s) = Inr c"
      "clf_predict E c X_test_pca = Inr yp"
    and pr: "precision_recall_fscore_support E (y_test s) yp = Inr (precision, recall)"
    and s1: "s1 = s\<lparr>clf := Some c, y_pred := Some yp,
                    out := out s @ evaluation_events s X_train_pca X_test_pca c\<rparr>"
    by blast
  from sel obtain k chosen g where
    rc: "requested_count (learning_rate E) (length (hard_samples_indexes (y_test s) yp)) = Inr k"
    and rs: "random_sample (hard_samples_indexes (y_test s) yp) k (rng s) = Inr (chosen, g)"
    and tx: "list_all (\<lambda>i. i < length (X_test s)) chosen"
    and ty: "list_all (\<lambda>i. i < length (y_test s)) chosen"
    and s': "s' = s1\<lparr>hard_samples_chosen := Some chosen,
                    X_train := X_train s1 @ map (\<lambda>i. X_test s ! i) chosen,
                    y_train := y_train s1 @ map (\<lambda>i. y_test s ! i) chosen,
                    rng := g,
                    out := out s1 @ [Print_picked (length chosen) (length (hard_samples_indexes (y_test s) yp)),
                                    Print_end_of_epoch (current_epoch s1)],
                    current_epoch := current_epoch s1 + 1\<rparr>"
    unfolding select_hard_samples_def s1
    by (auto simp: on_success_Inr Let_def take_rows_Inr_iff)
  show ?thesis
    apply (rule exI[of _ X_train_pca], rule exI[of _ X_test_pca], rule exI[of _ c],
           rule exI[of _ yp], rule exI[of _ precision], rule exI[of _ recall],
           rule exI[of _ k], rule exI[of _ chosen], rule exI[of _ g])
    using calls pr nc rc rs tx ty unfolding s' s1 epoch_events_def by simp
qed

lemma epoch_body_Break_fields:
  assumes "epoch_body E s = Inr (Break s')"
  shows "\<exists>X_train_pca X_test_pca c yp precision recall.
      pca_transform E (pca s) (X_train s) = Inr X_train_pca
    \<and> pca_transform E (pca s) (X_test s) = Inr X_test_pca
    \<and> clf_fit E X_train_pca (y_train s) = Inr c
    \<and> clf_predict E c X_test_pca = Inr yp
    \<and> precision_recall_fscore_support E (y_test s) yp = Inr (precision, recall)
    \<and> convergence_check precision recall (convergence_threshold E)
    \<and> clf s' = Some c \<and> y_pred s' = Some yp \<and> convergence s' = Some True
    \<and> hard_samples_chosen s' = hard_samples_chosen s
    \<and> X_train s' = X_train s \<and> y_train s' = y_train s \<and> rng s' = rng s
    \<and> out s' = out s @ evaluation_events s X_train_pca X_test_pca c
    \<and> current_epoch s' = current_epoch s
    \<and> X s' = X s \<and> y s' = y s \<and> X_test s' = X_test s \<and> y_test s' = y_test s
    \<and> pca s' = pca s \<and> converged s' = converged s"
proof -
  from assms obtain s1 precision recall where
    te: "train_and_evaluate E s = Inr (s1, precision, recall)" and
    nc: "convergence_check precision recall (convergence_threshold E)" and
    sel: "s' = s1\<lparr>convergence := Some True\<rparr>"
    unfolding epoch_body_def
    by (auto simp: on_success_Inr split: if_splits)
  from train_and_evaluate_frame[OF te] obtain X_train_pca X_test_pca c yp where
    calls: "pca_transform E (pca s) (X_train s) = Inr X_train_pca"
      "pca_transform E (pca s) (X_test s) = Inr X_test_pca"
      "clf_fit E X_train_pca (y_train s) = Inr c"
      "clf_predict E c X_test_pca = Inr yp"
    and pr: "precision_recall_fscore_support E (y_test s) yp = Inr (precision, recall)"
    and s1: "s1 = s\<lparr>clf := Some c, y_pred := Some yp,
                    out := out s @ evaluation_events s X_train_pca X_test_pca c\<rparr>"
    by blast
  show ?thesis
    apply (rule exI[of _ X_train_pca], rule exI[of _ X_test_pca], rule exI[of _ c],
           rule exI[of _ yp], rule exI[of _ precision], rule exI[of _ recall])
    using calls pr nc unfolding sel s1 by simp
qed

lemma final_report_fields:
  assumes "final_report E s = Inr sf"
  shows "\<exists>X_pca c yp. pca_transform E (pca s) (X s) = Inr X_pca \<and> clf s = Some c
       \<and> clf_predict E c X_pca = Inr yp \<and> y_pred sf = Some yp
       \<and> out sf = out s @ [Print_training_complete (current_epoch s),
                            Call_pca_transform (pca s) (X s), Call_clf_predict c X_pca,
                            Call_joblib_dump c]
       \<and> clf sf = clf s \<and> pca sf = pca s \<and> X sf = X s \<and> y sf = y s
       \<and> X_test sf = X_test s \<and> y_test sf = y_test s
       \<and> X_train sf = X_train s \<and> y_train sf = y_train s
       \<and> current_epoch sf = current_epoch s"
  using assms unfolding final_report_def call_pca_transform_def call_clf_predict_def print_line_def
  by (auto simp: on_success_Inr recorded_Inr Let_def split: option.splits)

lemma final_report_unbound:
  assumes "clf s = None"
  shows "final_report E s =
     (case pca_transform E (pca s) (X s) of Inl e \<Rightarrow> Inl e | Inr X_pca \<Rightarrow> Inl NameError)"
  using assms
  unfolding final_report_def call_pca_transform_def print_line_def recorded_def
  by (cases "pca_transform E (pca s) (X s)") (simp_all add: Let_def)

subsection \<open>The loop\<close>

lemma iterations_append [simp]: "iterations (xs @ ys) = iterations xs + iterations ys"
  by (simp add: iterations_def)

lemma iterations_evaluation_events [simp]: "iterations (evaluation_events s a b c) = 1"
  by (simp add: iterations_def evaluation_events_def)

lemma iterations_epoch_events [simp]: "iterations (epoch_events s a b c i j) = 1"
  by (simp add: epoch_events_def) (simp add: iterations_def)

lemma pca_fits_append [simp]: "pca_fits (xs @ ys) = pca_fits xs @ pca_fits ys"
  by (simp add: pca_fits_def)

lemma pca_transforms_append [simp]: "pca_transforms (xs @ ys) = pca_transforms xs @ pca_transforms ys"
  by (simp add: pca_transforms_def)

lemma pca_evaluation_events [simp]:
  "pca_fits (evaluation_events s a b c) = []"
  "pca_transforms (evaluation_events s a b c)
     = [Call_pca_transform (pca s) (X_train s), Call_pca_transform (pca s) (X_test s)]"
  by (simp_all add: pca_fits_def pca_transforms_def evaluation_events_def)

lemma pca_epoch_events [simp]:
  "pca_fits (epoch_events s a b c i j) = []"
  "pca_transforms (epoch_events s a b c i j)
     = [Call_pca_transform (pca s) (X_train s), Call_pca_transform (pca s) (X_test s)]"
  by (simp_all add: epoch_events_def) (simp_all add: pca_fits_def pca_transforms_def)

lemma initialise_fields:
  assumes "initialise E feature_count feature_dataset g = Inr s0"
  shows "X_test s0 = X s0 \<and> y_test s0 = y s0 \<and> y s0 = map snd feature_dataset
       \<and> fill_X feature_count feature_dataset = Inr (X s0)
       \<and> assemble_initial_train_set E (X s0) (y s0) (initial_train_size E) = Inr (X_train s0, y_train s0)
       \<and> pca_fit E (X s0) = Inr (pca s0)
       \<and> \<not> converged s0 \<and> current_epoch s0 = 0 \<and> clf s0 = None
       \<and> out s0 = [Call_pca_fit (X s0)] \<and> rng s0 = g"
  using assms unfolding initialise_def
  by (auto simp: on_success_Inr fill_y_def)

lemma fill_X_length: "fill_X feature_count feature_dataset = Inr m \<Longrightarrow> length m = length feature_dataset"
  by (induction feature_dataset arbitrary: m) (auto simp: on_success_Inr)

lemma loop_head_frame:
  assumes "loop_head E s0 s"
  shows "X s = X s0 \<and> y s = y s0 \<and> X_test s = X_test s0 \<and> y_test s = y_test s0
       \<and> pca s = pca s0 \<and> converged s = converged s0"
  using assms
proof (induction rule: loop_head.induct)
  case first
  show ?case by simp
next
  case (again s s')
  from epoch_body_Next_fields[OF again.hyps(4)] again.IH show ?case by auto
qed

lemma loop_head_epochs:
  assumes "loop_head E s0 s"
  shows "current_epoch s0 \<le> current_epoch s
       \<and> current_epoch s \<le> max (current_epoch s0) (max_epochs E)
       \<and> iterations (out s) = iterations (out s0) + nat (current_epoch s - current_epoch s0)
       \<and> pca_fits (out s) = pca_fits (out s0)
       \<and> length (pca_transforms (out s))
           = length (pca_transforms (out s0)) + 2 * nat (current_epoch s - current_epoch s0)"
  using assms
proof (induction rule: loop_head.induct)
  case first
  show ?case by simp
next
  case (again s s')
  from epoch_body_Next_fields[OF again.hyps(4)] obtain a b c i j where
    "out s' = out s @ epoch_events s a b c i j" "current_epoch s' = current_epoch s + 1"
    by blast
  with again.IH again.hyps(2) show ?case by (auto simp: nat_add_distrib)
qed

lemma loop_head_train:
  assumes "loop_head E s0 s"
  shows "take (length (X_train s0)) (X_train s) = X_train s0
       \<and> length (X_train s0) \<le> length (X_train s)
       \<and> length (X_train s) - length (X_train s0) = length (y_train s) - length (y_train s0)
       \<and> length (y_train s0) \<le> length (y_train s)"
  using assms
proof (induction rule: loop_head.induct)
  case first
  show ?case by simp
next
  case (again s s')
  from epoch_body_Next_fields[OF again.hyps(4)] obtain chosen where
    "X_train s' = X_train s @ map (\<lambda>i. X_test s ! i) chosen"
    "y_train s' = y_train s @ map (\<lambda>i. y_test s ! i) chosen"
    by blast
  with again.IH show ?case by auto
qed

lemma epoch_loop_stop:
  "\<not> (current_epoch s < max_epochs E \<and> \<not> converged s) \<Longrightarrow> epoch_loop E s = Inr s"
  by (subst epoch_loop.simps) auto

lemma epoch_loop_Break:
  "current_epoch s < max_epochs E \<Longrightarrow> \<not> converged s \<Longrightarrow> epoch_body E s = Inr (Break s') \<Longrightarrow>
     epoch_loop E s = Inr s'"
  by (subst epoch_loop.simps) simp

lemma epoch_loop_Next:
  "current_epoch s < max_epochs E \<Longrightarrow> \<not> converged s \<Longrightarrow> epoch_body E s = Inr (Next s') \<Longrightarrow>
     epoch_loop E s = epoch_loop E s'"
  by (subst epoch_loop.simps) simp

lemma epoch_loop_Inl:
  "current_epoch s < max_epochs E \<Longrightarrow> \<not> converged s \<Longrightarrow> epoch_body E s = Inl e \<Longrightarrow>
     epoch_loop E s = Inl e"
  by (subst epoch_loop.simps) simp

lemma epoch_loop_Inr:
  "epoch_loop E s = Inr sf \<Longrightarrow> loop_head E s0 s \<Longrightarrow>
     \<exists>sh. loop_head E s0 sh \<and>
       ((sf = sh \<and> \<not> (current_epoch sh < max_epochs E \<and> \<not> converged sh))
        \<or> (current_epoch sh < max_epochs E \<and> \<not> converged sh \<and> epoch_body E sh = Inr (Break sf)))"
proof (induction E s rule: epoch_loop.induct)
  case (1 E s)
  show ?case
  proof (cases "current_epoch s < max_epochs E \<and> \<not> converged s")
    case False
    with "1.prems" epoch_loop_stop[OF False] show ?thesis by auto
  next
    case True
    show ?thesis
    proof (cases "epoch_body E s")
      case (Inl e)
      with True "1.prems" epoch_loop_Inl[of s E e] show ?thesis by simp
    next
      case (Inr r)
      show ?thesis
      proof (cases r)
        case (Break sb)
        with Inr True "1.prems" epoch_loop_Break[of s E sb] show ?thesis by auto
      next
        case (Next sn)
        with Inr True "1.prems"(1) epoch_loop_Next[of s E sn]
        have el: "epoch_loop E sn = Inr sf" by simp
        from Next Inr True "1.prems"(2) have lh: "loop_head E s0 sn"
          by (auto intro: loop_head.again)
        from "1.IH"[OF True Inr Next el lh] show ?thesis .
      qed
    qed
  qed
qed

lemma loop_result:
  assumes i: "initialise E feature_count feature_dataset g = Inr s0"
    and l: "epoch_loop E s0 = Inr sf"
  shows "\<exists>sh. loop_head E s0 sh \<and>
       ((sf = sh \<and> current_epoch sh = max 0 (max_epochs E))
        \<or> (current_epoch sh < max_epochs E \<and> epoch_body E sh = Inr (Break sf)))"
proof -
  from epoch_loop_Inr[OF l loop_head.first] obtain sh where
    lh: "loop_head E s0 sh" and
    c: "(sf = sh \<and> \<not> (current_epoch sh < max_epochs E \<and> \<not> converged sh))
        \<or> (current_epoch sh < max_epochs E \<and> \<not> converged sh \<and> epoch_body E sh = Inr (Break sf))"
    by blast
  from initialise_fields[OF i] have z: "current_epoch s0 = 0" "\<not> converged s0" by simp_all
  from loop_head_frame[OF lh] z have nc: "\<not> converged sh" by simp
  from loop_head_epochs[OF lh] z have
    b: "0 \<le> current_epoch sh" "current_epoch sh \<le> max 0 (max_epochs E)" by simp_all
  from c nc b have "(sf = sh \<and> current_epoch sh = max 0 (max_epochs E))
        \<or> (current_epoch sh < max_epochs E \<and> epoch_body E sh = Inr (Break sf))"
    by auto
  with lh show ?thesis by blast
qed

lemma epoch_loop_within_enough:
  "nat (max_epochs E - current_epoch s) \<le> n \<Longrightarrow> epoch_loop_within n E s = Some (epoch_loop E s)"
proof (induction n arbitrary: s)
  case 0
  then have "\<not> (current_epoch s < max_epochs E \<and> \<not> converged s)" by simp
  with epoch_loop_stop[OF this] show ?case by simp
next
  case (Suc n)
  show ?case
  proof (cases "current_epoch s < max_epochs E \<and> \<not> converged s")
    case False
    with epoch_loop_stop[OF False] show ?thesis by auto
  next
    case True
    show ?thesis
    proof (cases "epoch_body E s")
      case (Inl e)
      with True epoch_loop_Inl[of s E e] show ?thesis by simp
    next
      case (Inr r)
      show ?thesis
      proof (cases r)
        case (Break sb)
        with Inr True epoch_loop_Break[of s E sb] show ?thesis by simp
      next
        case (Next sn)
        with Inr have b: "epoch_body E s = Inr (Next sn)" by simp
        from epoch_body_Next_epoch[OF b] Suc.prems
        have "nat (max_epochs E - current_epoch sn) \<le> n" by simp
        from Suc.IH[OF this] b True epoch_loop_Next[of s E sn] show ?thesis by simp
      qed
    qed
  qed
qed

subsection \<open>Precision and recall at threshold 0\<close>

lemma all_above_map: "all_above (map f cs) t \<longleftrightarrow> (\<forall>c\<in>set cs. t < f c)"
  by (simp add: all_above_def list_all_iff)

lemma ratio_or_zero_pos: "0 < ratio_or_zero a b \<longleftrightarrow> 0 < a \<and> 0 < b"
  by (simp add: ratio_or_zero_def zero_less_divide_iff)

lemma true_positives_pos:
  "0 < true_positives c yt yp \<longleftrightarrow> (\<exists>i. i < length yt \<and> i < length yp \<and> yt ! i = c \<and> yp ! i = c)"
proof -
  have "0 < true_positives c yt yp \<longleftrightarrow> (\<exists>p\<in>set (zip yt yp). fst p = c \<and> snd p = c)"
    unfolding true_positives_def by (simp add: filter_empty_conv case_prod_beta)
  also have "\<dots> \<longleftrightarrow> (c, c) \<in> set (zip yt yp)"
    by force
  also have "\<dots> \<longleftrightarrow> (\<exists>i. i < length yt \<and> i < length yp \<and> yt ! i = c \<and> yp ! i = c)"
    by (auto simp: in_set_zip)
  finally show ?thesis .
qed

lemma occurrences_pos: "0 < occurrences c ys \<longleftrightarrow> c \<in> set ys"
  unfolding occurrences_def by (auto simp: filter_empty_conv)

lemma true_positives_occurrences:
  assumes "0 < true_positives c yt yp"
  shows "0 < occurrences c yt \<and> 0 < occurrences c yp"
  using assms unfolding true_positives_pos occurrences_pos by (metis nth_mem)

lemma sk_convergence_zero:
  assumes "length yt = length yp"
  shows "\<exists>precision recall. sk_precision_recall yt yp = Inr (precision, recall)
     \<and> (convergence_check precision recall 0 \<longleftrightarrow>
          (\<forall>c\<in>set yt \<union> set yp. \<exists>i<length yt. yt ! i = c \<and> yp ! i = c))"
proof -
  let ?ls = "sorted_list_of_set (set yt \<union> set yp)"
  let ?p = "map (\<lambda>c. ratio_or_zero (true_positives c yt yp) (occurrences c yp)) ?ls"
  let ?r = "map (\<lambda>c. ratio_or_zero (true_positives c yt yp) (occurrences c yt)) ?ls"
  have s: "sk_precision_recall yt yp = Inr (?p, ?r)"
    using assms by (simp add: sk_precision_recall_def Let_def)
  have ls: "set ?ls = set yt \<union> set yp" by simp
  have "convergence_check ?p ?r 0 \<longleftrightarrow> (\<forall>c\<in>set yt \<union> set yp. 0 < true_positives c yt yp)"
    unfolding convergence_check_def all_above_map ls ratio_or_zero_pos
    using true_positives_occurrences by blast
  also have "\<dots> \<longleftrightarrow> (\<forall>c\<in>set yt \<union> set yp. \<exists>i<length yt. yt ! i = c \<and> yp ! i = c)"
    unfolding true_positives_pos using assms by auto
  finally show ?thesis using s by blast
qed

subsection \<open>Doubles\<close>

lemma round_double_unrounded:
  assumes "bitlen \<bar>m\<bar> \<le> 53" and "- 1074 \<le> e"
  shows "round_double m e =
     (if bitlen \<bar>m\<bar> + e \<le> 1024 then Finite m e
      else if 0 < m then PlusInfinity else MinusInfinity)"
proof -
  from assms have s: "max (bitlen \<bar>m\<bar> - 53) (- 1074 - e) \<le> 0" by simp
  show ?thesis unfolding round_double_def Let_def by (simp only: s if_True)
qed

lemma round_double_exact:
  assumes "bitlen \<bar>m\<bar> \<le> 53" and "- 1074 \<le> e" and "bitlen \<bar>m\<bar> + e \<le> 1024"
  shows "round_double m e = Finite m e"
  using round_double_unrounded[OF assms(1,2)] assms(3) by simp

lemma round_double_exact_or_infinite:
  assumes "bitlen \<bar>m\<bar> \<le> 53" and "- 1074 \<le> e"
  shows "round_double m e = Finite m e \<or> round_double m e = PlusInfinity
       \<or> round_double m e = MinusInfinity"
  using round_double_unrounded[OF assms] by simp

lemma double_of_nat_exact:
  assumes "int n < 2 ^ 53"
  shows "double_of_nat n = Inr (Finite (int n) 0)"
proof -
  have "bitlen \<bar>int n\<bar> \<le> 53" using assms by (simp add: bitlen_le_iff_power)
  then have "round_double (int n) 0 = Finite (int n) 0"
    by (intro round_double_exact) simp_all
  then show ?thesis by (simp add: double_of_nat_def)
qed

lemma requested_count_zero:
  assumes "is_double (Finite m e)"
  shows "requested_count (Finite m e) 0 = Inr 0"
proof -
  from assms have e: "- 1074 \<le> e" "e \<le> 1024"
    using bitlen_nonneg[of "\<bar>m\<bar>"] by (auto simp: is_double_def)
  have "round_double 0 e = Finite 0 e"
    using e by (intro round_double_exact) simp_all
  then show ?thesis
    using double_of_nat_exact[of 0] by (simp add: requested_count_def)
qed

lemma py_int_nonneg:
  assumes "0 \<le> m"
  shows "py_int (Finite m e) = Inr \<lfloor>finite_value m e\<rfloor>"
proof (cases "0 \<le> e")
  case True
  have "\<lfloor>real_of_int m * 2 ^ nat e\<rfloor> = m * 2 ^ nat e"
    by (metis floor_of_int of_int_mult of_int_numeral of_int_power)
  with True show ?thesis by (simp add: finite_value_def)
next
  case False
  have "\<lfloor>real_of_int m / 2 ^ nat (- e)\<rfloor> = m div 2 ^ nat (- e)"
    by (metis floor_divide_of_int_eq of_int_numeral of_int_power)
  with False assms show ?thesis by (simp add: finite_value_def)
qed

lemma finite_value_mult: "finite_value (m * int n) e = finite_value m e * real n"
  by (simp add: finite_value_def)

lemma requested_count_exact:
  assumes d: "is_double (Finite m e)" and m: "0 \<le> m"
    and n: "int n < 2 ^ 53" and p: "m * int n < 2 ^ 53"
    and k: "requested_count (Finite m e) n = Inr k"
  shows "k = \<lfloor>finite_value m e * real n\<rfloor>"
proof -
  from d have e: "- 1074 \<le> e" by (simp add: is_double_def)
  have mn: "0 \<le> m * int n" using m by simp
  have b: "bitlen \<bar>m * int n\<bar> \<le> 53" using p mn by (simp add: bitlen_le_iff_power)
  from k double_of_nat_exact[OF n]
  have pk: "py_int (round_double (m * int n) e) = Inr k" by (simp add: requested_count_def)
  from round_double_exact_or_infinite[OF b e] pk
  have "round_double (m * int n) e = Finite (m * int n) e" by auto
  with pk py_int_nonneg[OF mn, of e] show ?thesis by (simp add: finite_value_mult)
qed

lemma select_hard_samples_cases:
  assumes yp: "y_pred s = Some yp" and al: "length (X_test s) = length (y_test s)"
    and n: "n = length (hard_samples_indexes (y_test s) yp)"
  shows "(requested_count (learning_rate E) n = Inl err \<longrightarrow> select_hard_samples E s = Inl err)
       \<and> (requested_count (learning_rate E) n = Inr k \<and> \<not> (0 \<le> k \<and> k \<le> int n) \<longrightarrow>
            select_hard_samples E s = Inl ValueError)
       \<and> (requested_count (learning_rate E) n = Inr k \<and> 0 \<le> k \<and> k \<le> int n \<longrightarrow>
            (\<exists>s'. select_hard_samples E s = Inr s'
               \<and> length (X_train s') = length (X_train s) + nat k
               \<and> length (y_train s') = length (y_train s) + nat k
               \<and> (k = 0 \<longrightarrow> X_train s' = X_train s \<and> y_train s' = y_train s)))"
proof (intro conjI impI)
  assume "requested_count (learning_rate E) n = Inl err"
  then show "select_hard_samples E s = Inl err"
    unfolding select_hard_samples_def using yp n by (simp add: Let_def)
next
  assume "requested_count (learning_rate E) n = Inr k \<and> \<not> (0 \<le> k \<and> k \<le> int n)"
  then show "select_hard_samples E s = Inl ValueError"
    unfolding select_hard_samples_def using yp n
    by (simp add: Let_def random_sample_def)
next
  assume ok: "requested_count (learning_rate E) n = Inr k \<and> 0 \<le> k \<and> k \<le> int n"
  let ?D = "hard_samples_indexes (y_test s) yp"
  obtain chosen g where sp: "sample_pool ?D (nat k) (rng s) = (chosen, g)"
    by (cases "sample_pool ?D (nat k) (rng s)")
  from ok n have le: "nat k \<le> length ?D" by linarith
  from sample_pool_props[OF hard_samples_indexes_distinct le, of "rng s"] sp
  have c: "length chosen = nat k" "set chosen \<subseteq> set ?D" by simp_all
  from c(2) have iy: "list_all (\<lambda>i. i < length (y_test s)) chosen"
    by (auto simp: hard_samples_indexes_set list_all_iff)
  with al have ix: "list_all (\<lambda>i. i < length (X_test s)) chosen" by simp
  have rs: "random_sample ?D k (rng s) = Inr (chosen, g)"
    using ok n sp by (simp add: random_sample_def)
  let ?s' = "s\<lparr>hard_samples_chosen := Some chosen,
                    X_train := X_train s @ map (\<lambda>i. X_test s ! i) chosen,
                    y_train := y_train s @ map (\<lambda>i. y_test s ! i) chosen,
                    rng := g,
                    out := out s @ [Print_picked (length chosen) (length ?D),
                                    Print_end_of_epoch (current_epoch s)],
                    current_epoch := current_epoch s + 1\<rparr>"
  have "select_hard_samples E s = Inr ?s'"
    unfolding select_hard_samples_def using yp rs ix iy n ok
    by (simp add: Let_def take_rows_Inr)
  moreover have "length (X_train ?s') = length (X_train s) + nat k"
    "length (y_train ?s') = length (y_train s) + nat k"
    using c(1) by simp_all
  moreover have "k = 0 \<longrightarrow> X_train ?s' = X_train s \<and> y_train ?s' = y_train s"
    using c(1) by auto
  ultimately show "\<exists>s'. select_hard_samples E s = Inr s'
               \<and> length (X_train s') = length (X_train s) + nat k
               \<and> length (y_train s') = length (y_train s) + nat k
               \<and> (k = 0 \<longrightarrow> X_train s' = X_train s \<and> y_train s' = y_train s)"
    by blast
qed

subsection \<open>The calls of an epoch\<close>

lemma loop_head_transforms:
  assumes "loop_head E s0 s" and "list_all (transformed_by (pca s0)) (pca_transforms (out s0))"
  shows "list_all (transformed_by (pca s0)) (pca_transforms (out s))"
  using assms
proof (induction rule: loop_head.induct)
  case first
  then show ?case by simp
next
  case (again s s')
  from epoch_body_Next_fields[OF again.hyps(4)] obtain a b c i j where
    "out s' = out s @ epoch_events s a b c i j"
    by blast
  with again.IH[OF again.prems] loop_head_frame[OF again.hyps(1)] show ?case by simp
qed

lemma train_and_evaluate_calls:
  assumes "pca_transform E (pca s) (X_train s) = Inr X_train_pca"
    and "pca_transform E (pca s) (X_test s) = Inr X_test_pca"
    and "clf_fit E X_train_pca (y_train s) = Inr c"
    and "clf_predict E c X_test_pca = Inr yp"
    and "precision_recall_fscore_support E (y_test s) yp = Inr (precision, recall)"
  shows "train_and_evaluate E s =
           Inr (s\<lparr>clf := Some c, y_pred := Some yp,
                  out := out s @ evaluation_events s X_train_pca X_test_pca c\<rparr>,
                precision, recall)"
  using assms
  unfolding train_and_evaluate_def call_pca_transform_def call_clf_fit_def call_clf_predict_def
    print_line_def evaluation_events_def recorded_def
  by (simp add: Let_def)

lemma epoch_body_first_failure:
  assumes "pca_transform E (pca s) (X_train s) = Inl err"
  shows "epoch_body E s = Inl err"
  using assms
  unfolding epoch_body_def train_and_evaluate_def call_pca_transform_def print_line_def recorded_def
  by (simp add: Let_def)

lemma epoch_body_Break_calls:
  assumes "pca_transform E (pca s) (X_train s) = Inr X_train_pca"
    and "pca_transform E (pca s) (X_test s) = Inr X_test_pca"
    and "clf_fit E X_train_pca (y_train s) = Inr c"
    and "clf_predict E c X_test_pca = Inr yp"
    and "precision_recall_fscore_support E (y_test s) yp = Inr (precision, recall)"
    and "convergence_check precision recall (convergence_threshold E)"
  shows "epoch_body E s =
           Inr (Break (s\<lparr>clf := Some c, y_pred := Some yp,
                         out := out s @ evaluation_events s X_train_pca X_test_pca c,
                         convergence := Some True\<rparr>))"
  unfolding epoch_body_def train_and_evaluate_calls[OF assms(1-5)] using assms(6) by simp

subsection \<open>The concrete run\<close>

lemma demo_initialise: "initialise demo_env 1 demo_dataset [5] = Inr demo_s0"
  by (simp add: initialise_def demo_env_def demo_dataset_def demo_s0_def assign_row_def fill_y_def)

lemma demo_initialise0: "initialise demo_env0 1 demo_dataset [5] = Inr demo_s0"
  by (simp add: initialise_def demo_env0_def demo_env_def demo_dataset_def demo_s0_def
        assign_row_def fill_y_def)

lemma demo_initialise_B: "initialise demo_envB 1 demo_dataset [5] = Inr demo_s0"
  by (simp add: initialise_def demo_envB_def demo_env_def demo_dataset_def demo_s0_def
        assign_row_def fill_y_def)

lemma demo_epoch: "epoch_body demo_env demo_s0 = Inr (Next demo_s1)"
  by code_simp

lemma demo_epoch2: "epoch_body demo_env demo_s1 = Inr (Next demo_s2)"
  by code_simp

lemma demo_epoch_B: "epoch_body demo_envB demo_s0 = Inr (Break demo_sB)"
  by code_simp

lemma demo_loop_head: "loop_head demo_env demo_s0 demo_s1"
proof (rule loop_head.again[OF loop_head.first _ _ demo_epoch])
  show "current_epoch demo_s0 < max_epochs demo_env" by (simp add: demo_s0_def demo_env_def)
  show "\<not> converged demo_s0" by (simp add: demo_s0_def)
qed

lemma demo_loop_head2: "loop_head demo_env demo_s0 demo_s2"
proof (rule loop_head.again[OF demo_loop_head _ _ demo_epoch2])
  show "current_epoch demo_s1 < max_epochs demo_env" by (simp add: demo_s1_def demo_env_def)
  show "\<not> converged demo_s1" by (simp add: demo_s1_def demo_s0_def)
qed

lemma demo_epoch_loop: "epoch_loop demo_env demo_s0 = Inr demo_s2"
proof -
  have "epoch_loop demo_env demo_s0 = epoch_loop demo_env demo_s1"
    by (rule epoch_loop_Next[OF _ _ demo_epoch]) (simp_all add: demo_s0_def demo_env_def)
  also have "\<dots> = epoch_loop demo_env demo_s2"
    by (rule epoch_loop_Next[OF _ _ demo_epoch2]) (simp_all add: demo_s1_def demo_s0_def demo_env_def)
  also have "\<dots> = Inr demo_s2"
    by (rule epoch_loop_stop) (simp add: demo_s2_def demo_env_def)
  finally show ?thesis .
qed

lemma demo_final_report: "final_report demo_env demo_s2 = Inr demo_sF"
  by code_simp

lemma demo_lss_train: "lss_train demo_env 1 demo_dataset [5] = Inr demo_sF"
  unfolding lss_train_def demo_initialise on_success.simps demo_epoch_loop
  by (rule demo_final_report)

lemma demo_train_and_evaluate:
  "train_and_evaluate demo_env demo_s0 =
     Inr (demo_s0\<lparr>clf := Some 0, y_pred := Some [0, 0, 0, 0],
            out := out demo_s0 @ evaluation_events demo_s0 (X_train demo_s0) (X_test demo_s0) 0\<rparr>,
          [1 / 2, 0], [1, 0])"
  by code_simp

lemma demo_train_and_evaluate_B:
  "train_and_evaluate demo_envB demo_s0 =
     Inr (demo_s0\<lparr>clf := Some 0, y_pred := Some [0, 1, 0, 0],
            out := out demo_s0 @ evaluation_events demo_s0 (X_train demo_s0) (X_test demo_s0) 0\<rparr>,
          [2 / 3, 1], [1, 1 / 2])"
  by code_simp

lemma demo_true_positives_B:
  "\<forall>c\<in>set (y_test demo_s0) \<union> set [0, 1, 0, 0].
     \<exists>i<length (y_test demo_s0). y_test demo_s0 ! i = c \<and> [0, 1, 0, 0] ! i = c"
proof -
  have "\<exists>i<Suc (Suc (Suc (Suc 0))). [0, 1, 1, 0 :: int] ! i = 0 \<and> [0, 1, 0, 0 :: int] ! i = 0"
    by (rule exI[of _ 0]) simp
  moreover
  have "\<exists>i<Suc (Suc (Suc (Suc 0))). [0, 1, 1, 0 :: int] ! i = 1 \<and> [0, 1, 0, 0 :: int] ! i = 1"
    by (rule exI[of _ 1]) simp
  ultimately show ?thesis by (simp add: demo_s0_def)
qed

lemma demo_no_disagreements: "hard_samples_indexes [0, 1, 1, 0] [0, 1, 1, 0] = []"
  by code_simp

lemma demo_disagreements: "hard_samples_indexes [0, 1, 1, 0] [0, 0, 0, 0] = [1, 2]"
  by code_simp

text \<open>
  The requested count at the doubles 0.3, 0.58, 1.3333333333333333 and 0.7, at 1e308, at
  the least positive double, at -0.25, and at not-a-number and infinity.
\<close>

lemma requested_count_examples:
  "requested_count (Finite 5404319552844595 (- 54)) 10 = Inr 3"
  "requested_count (Finite 5224175567749775 (- 53)) 100 = Inr 57"
  "requested_count (Finite 6004799503160661 (- 52)) 3 = Inr 4"
  "requested_count (Finite 3152519739159347 (- 52)) 10 = Inr 7"
  "requested_count (Finite 156575653125701 976) 10 = Inl OverflowError"
  "requested_count (Finite 1 (- 1074)) 1 = Inr 0"
  "requested_count (Finite (- 1) (- 2)) 2 = Inr 0"
  "requested_count NaN 0 = Inl ValueError"
  "requested_count PlusInfinity 3 = Inl OverflowError"
  "requested_count PlusInfinity 0 = Inl ValueError"
  by code_simp+

section \<open>The claims\<close>

text \<open>
  C1. The convergence check holds if and only if, for every class, the precision and the
  recall both strictly exceed the threshold (the two vectors have one entry per class);
  one class whose recall is at most the threshold prevents convergence whatever the other
  values are; and an epoch leaves the loop through the convergence branch exactly when the
  check holds of the metrics computed in it.
\<close>

theorem convergence_conjunction:
  "(length precision = length recall \<longrightarrow>
     (convergence_check precision recall threshold \<longleftrightarrow>
       (\<forall>c<length precision. precision ! c > threshold \<and> recall ! c > threshold)))
   \<and> (c < length recall \<and> recall ! c \<le> threshold \<longrightarrow> \<not> convergence_check precision recall threshold)
   \<and> (train_and_evaluate E s = Inr (s1, precision, recall) \<longrightarrow>
        ((\<exists>s'. epoch_body E s = Inr (Break s')) \<longleftrightarrow>
           convergence_check precision recall (convergence_threshold E)))"
proof (intro conjI impI)
  assume "length precision = length recall"
  then show "convergence_check precision recall threshold \<longleftrightarrow>
       (\<forall>c<length precision. precision ! c > threshold \<and> recall ! c > threshold)"
    by (auto simp: convergence_check_def all_above_nth)
next
  assume "c < length recall \<and> recall ! c \<le> threshold"
  then show "\<not> convergence_check precision recall threshold"
    by (auto simp: convergence_check_def all_above_nth)
next
  assume "train_and_evaluate E s = Inr (s1, precision, recall)"
  then show "(\<exists>s'. epoch_body E s = Inr (Break s')) \<longleftrightarrow>
           convergence_check precision recall (convergence_threshold E)"
    by (auto simp: epoch_body_def on_success_Inr split: if_splits)
qed

text \<open>The concrete run at the default threshold: class 1 has recall 0, so no convergence.\<close>

theorem convergence_conjunction_witness:
  "length [1 / 2, 0 :: real] = length [1, 0 :: real]
   \<and> (1 :: nat) < length [1, 0 :: real]
   \<and> [1, 0 :: real] ! 1 \<le> convergence_threshold demo_env
   \<and> \<not> convergence_check [1 / 2, 0] [1, 0] (convergence_threshold demo_env)
   \<and> \<not> (\<exists>s'. epoch_body demo_env demo_s0 = Inr (Break s'))"
proof -
  have a: "length [1 / 2, 0 :: real] = length [1, 0 :: real]" by simp
  have b: "(1 :: nat) < length [1, 0 :: real]" by simp
  have c: "[1, 0 :: real] ! 1 \<le> convergence_threshold demo_env" by (simp add: demo_env_def)
  note t = convergence_conjunction[of "[1 / 2, 0]" "[1, 0]" "convergence_threshold demo_env" 1
          demo_env demo_s0
          "demo_s0\<lparr>clf := Some 0, y_pred := Some [0, 0, 0, 0],
            out := out demo_s0 @ evaluation_events demo_s0 (X_train demo_s0) (X_test demo_s0) 0\<rparr>"]
  from t b c have d: "\<not> convergence_check [1 / 2, 0] [1, 0] (convergence_threshold demo_env)"
    by blast
  from t demo_train_and_evaluate d
  have e: "\<not> (\<exists>s'. epoch_body demo_env demo_s0 = Inr (Break s'))" by blast
  from a b c d e show ?thesis by blast
qed

text \<open>
  C2. As stated the claim fails. The number of rows appended is \<open>int()\<close> of the double
  product of the learning rate and the number of disagreements, not the floor of their
  exact product. With learning rate 0.3 and ten disagreements the double product rounds up
  to 3.0 and three rows are appended, while the exact product of the double 0.3 and 10 is
  below 3 and its floor is 2. With learning rate -0.25 and two disagreements \<open>int(-0.5)\<close>
  is 0, so no row is appended, while the floor is -1. With learning rate 2 and two
  disagreements the epoch does not converge and appends nothing: it ends in \<open>ValueError\<close>,
  while the floor is 4.
\<close>

theorem hard_sample_count_counterexample:
  "learning_rate demo_env03 = Finite 5404319552844595 (- 54)
   \<and> is_double (Finite 5404319552844595 (- 54))
   \<and> \<bar>finite_value 5404319552844595 (- 54) - 3 / 10\<bar> < 1 / 2 ^ 55
   \<and> hard_sample_summary demo_t0 (epoch_body demo_env03 demo_t0) = Some (10, 3)
   \<and> \<lfloor>finite_value 5404319552844595 (- 54) * real (10 :: nat)\<rfloor> = 2
   \<and> learning_rate demo_envN = Finite (- 1) (- 2)
   \<and> hard_sample_summary demo_s0 (epoch_body demo_envN demo_s0) = Some (2, 0)
   \<and> \<lfloor>finite_value (- 1) (- 2) * real (2 :: nat)\<rfloor> = - 1
   \<and> learning_rate demo_env2 = Finite 1 1
   \<and> epoch_body demo_env2 demo_s0 = Inl ValueError
   \<and> \<lfloor>finite_value 1 1 * real (2 :: nat)\<rfloor> = 4"
  by code_simp

text \<open>
  C2, amended. An epoch that does not converge and runs to its end appends to the training
  set the rows of the evaluation set at the chosen indexes. Their number is
  \<open>k = int(learning_rate * n)\<close>, the double product truncated towards zero, where \<open>n\<close> is the
  number of indexes at which the true and the predicted label differ, and \<open>0 <= k <= n\<close>.
  It is the floor of the exact product whenever the learning rate is a double that is not
  negative and the product of its mantissa with \<open>n\<close> needs no rounding. The chosen indexes
  are pairwise different (drawn without replacement), all lie in the disagreement set, and
  so every appended sample's true label differs from its predicted label.
\<close>

theorem hard_sample_count:
  assumes "epoch_body E s = Inr (Next s')"
  shows "\<exists>yp chosen k. y_pred s' = Some yp \<and> hard_samples_chosen s' = Some chosen
     \<and> X_train s' = X_train s @ map (\<lambda>i. X_test s ! i) chosen
     \<and> y_train s' = y_train s @ map (\<lambda>i. y_test s ! i) chosen
     \<and> length (X_train s') = length (X_train s) + length chosen
     \<and> requested_count (learning_rate E) (length (hard_samples_indexes (y_test s) yp)) = Inr k
     \<and> int (length chosen) = k
     \<and> 0 \<le> k \<and> k \<le> int (length (hard_samples_indexes (y_test s) yp))
     \<and> (learning_rate E = Finite m e \<and> is_double (Finite m e) \<and> 0 \<le> m
          \<and> int (length (hard_samples_indexes (y_test s) yp)) < 2 ^ 53
          \<and> m * int (length (hard_samples_indexes (y_test s) yp)) < 2 ^ 53 \<longrightarrow>
          int (length chosen)
            = \<lfloor>finite_value m e * real (length (hard_samples_indexes (y_test s) yp))\<rfloor>)
     \<and> length (hard_samples_indexes (y_test s) yp)
          = card {i. i < length (y_test s) \<and> i < length yp \<and> y_test s ! i \<noteq> yp ! i}
     \<and> distinct chosen
     \<and> set chosen \<subseteq> {i. i < length (y_test s) \<and> i < length yp \<and> y_test s ! i \<noteq> yp ! i}
     \<and> list_all (\<lambda>i. y_test s ! i \<noteq> yp ! i) chosen"
proof -
  from epoch_body_Next_fields[OF assms] obtain yp k chosen g where
    rc: "requested_count (learning_rate E) (length (hard_samples_indexes (y_test s) yp)) = Inr k"
    and rs: "random_sample (hard_samples_indexes (y_test s) yp) k (rng s) = Inr (chosen, g)"
    and f: "y_pred s' = Some yp" "hard_samples_chosen s' = Some chosen"
      "X_train s' = X_train s @ map (\<lambda>i. X_test s ! i) chosen"
      "y_train s' = y_train s @ map (\<lambda>i. y_test s ! i) chosen"
    by blast
  let ?D = "hard_samples_indexes (y_test s) yp"
  from random_sample_Inr[OF rs hard_samples_indexes_distinct] have
    k: "0 \<le> k" "k \<le> int (length ?D)" "length chosen = nat k"
    and d: "distinct chosen" and sub: "set chosen \<subseteq> set ?D"
    by simp_all
  from k have len: "int (length chosen) = k" by simp
  have fl: "int (length chosen) = \<lfloor>finite_value m e * real (length ?D)\<rfloor>"
    if "learning_rate E = Finite m e \<and> is_double (Finite m e) \<and> 0 \<le> m
          \<and> int (length ?D) < 2 ^ 53 \<and> m * int (length ?D) < 2 ^ 53"
    using requested_count_exact[of m e "length ?D" k] that rc len by simp
  have card: "length ?D = card {i. i < length (y_test s) \<and> i < length yp \<and> y_test s ! i \<noteq> yp ! i}"
    using distinct_card[OF hard_samples_indexes_distinct, of "y_test s" yp]
    by (simp add: hard_samples_indexes_set)
  from sub have sub': "set chosen \<subseteq> {i. i < length (y_test s) \<and> i < length yp \<and> y_test s ! i \<noteq> yp ! i}"
    by (simp add: hard_samples_indexes_set)
  then have la: "list_all (\<lambda>i. y_test s ! i \<noteq> yp ! i) chosen"
    by (auto simp: list_all_iff)
  show ?thesis
    apply (rule exI[of _ yp], rule exI[of _ chosen], rule exI[of _ k])
    using f rc len k(1,2) fl card d sub' la by simp
qed

text \<open>
  The first epoch of the concrete run: two disagreements, rate 0.5, one sample appended,
  which is the floor of the exact product.
\<close>

theorem hard_sample_count_witness:
  "epoch_body demo_env demo_s0 = Inr (Next demo_s1)
   \<and> learning_rate demo_env = Finite 1 (- 1) \<and> is_double (Finite 1 (- 1)) \<and> (0 :: int) \<le> 1
   \<and> (\<exists>yp chosen k. y_pred demo_s1 = Some yp \<and> hard_samples_chosen demo_s1 = Some chosen
     \<and> X_train demo_s1 = X_train demo_s0 @ map (\<lambda>i. X_test demo_s0 ! i) chosen
     \<and> y_train demo_s1 = y_train demo_s0 @ map (\<lambda>i. y_test demo_s0 ! i) chosen
     \<and> length (X_train demo_s1) = length (X_train demo_s0) + length chosen
     \<and> requested_count (learning_rate demo_env)
          (length (hard_samples_indexes (y_test demo_s0) yp)) = Inr k
     \<and> int (length chosen) = k
     \<and> int (length chosen)
          = \<lfloor>finite_value 1 (- 1) * real (length (hard_samples_indexes (y_test demo_s0) yp))\<rfloor>
     \<and> distinct chosen
     \<and> list_all (\<lambda>i. y_test demo_s0 ! i \<noteq> yp ! i) chosen)"
proof -
  have a: "learning_rate demo_env = Finite 1 (- 1)" by (simp add: demo_env_def)
  have b: "is_double (Finite 1 (- 1))" by code_simp
  from hard_sample_count[OF demo_epoch, of 1 "- 1"] obtain yp chosen k where
    c: "y_pred demo_s1 = Some yp" "hard_samples_chosen demo_s1 = Some chosen"
     "X_train demo_s1 = X_train demo_s0 @ map (\<lambda>i. X_test demo_s0 ! i) chosen"
     "y_train demo_s1 = y_train demo_s0 @ map (\<lambda>i. y_test demo_s0 ! i) chosen"
     "length (X_train demo_s1) = length (X_train demo_s0) + length chosen"
     "requested_count (learning_rate demo_env)
          (length (hard_samples_indexes (y_test demo_s0) yp)) = Inr k"
     "int (length chosen) = k"
     "learning_rate demo_env = Finite 1 (- 1) \<and> is_double (Finite 1 (- 1)) \<and> (0 :: int) \<le> 1
          \<and> int (length (hard_samples_indexes (y_test demo_s0) yp)) < 2 ^ 53
          \<and> 1 * int (length (hard_samples_indexes (y_test demo_s0) yp)) < 2 ^ 53 \<longrightarrow>
          int (length chosen)
            = \<lfloor>finite_value 1 (- 1) * real (length (hard_samples_indexes (y_test demo_s0) yp))\<rfloor>"
     "distinct chosen" "list_all (\<lambda>i. y_test demo_s0 ! i \<noteq> yp ! i) chosen"
    by blast
  from c(1) have yp: "yp = [0, 0, 0, 0]" by (simp add: demo_s1_def)
  have n: "int (length (hard_samples_indexes (y_test demo_s0) yp)) < 2 ^ 53"
    unfolding yp by (simp add: demo_s0_def demo_disagreements)
  from c(8) a b n have fl: "int (length chosen)
            = \<lfloor>finite_value 1 (- 1) * real (length (hard_samples_indexes (y_test demo_s0) yp))\<rfloor>"
    by simp
  have z: "(0 :: int) \<le> 1" by simp
  from demo_epoch a b z c(1-7) fl c(9,10) show ?thesis by blast
qed

text \<open>
  C3. The loop terminates, after at most \<open>max_epochs\<close> executions of its body. Every
  execution of the body that returns either leaves the loop (convergence) or adds one to
  \<open>current_epoch\<close>; with the counter at \<open>max_epochs\<close> or beyond the loop returns at once; a
  budget of \<open>max_epochs - current_epoch\<close> executions always suffices for the loop to return
  (an error, or a state); and in a run, the counter never exceeds \<open>max_epochs\<close>, equals the
  number of epochs begun, and the final state has begun at most \<open>max_epochs\<close> epochs.
\<close>

theorem epoch_loop_bounded:
  "(epoch_body E s = Inr r \<longrightarrow>
      (\<exists>s'. r = Break s' \<and> current_epoch s' = current_epoch s)
      \<or> (\<exists>s'. r = Next s' \<and> current_epoch s' = current_epoch s + 1))
   \<and> (max_epochs E \<le> current_epoch s \<longrightarrow> epoch_loop E s = Inr s)
   \<and> epoch_loop_within (nat (max_epochs E - current_epoch s)) E s = Some (epoch_loop E s)
   \<and> (initialise E feature_count feature_dataset g = Inr s0 \<longrightarrow>
        epoch_loop_within (nat (max_epochs E)) E s0 = Some (epoch_loop E s0)
        \<and> (loop_head E s0 sk \<longrightarrow>
             0 \<le> current_epoch sk \<and> current_epoch sk \<le> max 0 (max_epochs E)
             \<and> iterations (out sk) = nat (current_epoch sk))
        \<and> (epoch_loop E s0 = Inr sf \<longrightarrow>
             iterations (out sf) \<le> nat (max_epochs E)
             \<and> nat (current_epoch sf) \<le> nat (max_epochs E)
             \<and> (current_epoch sf = max 0 (max_epochs E) \<or> convergence sf = Some True)))"
proof (intro conjI impI)
  assume b: "epoch_body E s = Inr r"
  show "(\<exists>s'. r = Break s' \<and> current_epoch s' = current_epoch s)
      \<or> (\<exists>s'. r = Next s' \<and> current_epoch s' = current_epoch s + 1)"
  proof (cases r)
    case (Break sb)
    with b epoch_body_Break_fields[of E s sb] show ?thesis by auto
  next
    case (Next sn)
    with b epoch_body_Next_epoch[of E s sn] show ?thesis by auto
  qed
next
  assume "max_epochs E \<le> current_epoch s"
  then show "epoch_loop E s = Inr s" by (intro epoch_loop_stop) simp
next
  show "epoch_loop_within (nat (max_epochs E - current_epoch s)) E s = Some (epoch_loop E s)"
    by (rule epoch_loop_within_enough) simp
next
  assume i: "initialise E feature_count feature_dataset g = Inr s0"
  from initialise_fields[OF i] have z: "current_epoch s0 = 0" "out s0 = [Call_pca_fit (X s0)]"
    by simp_all
  show "epoch_loop_within (nat (max_epochs E)) E s0 = Some (epoch_loop E s0)"
    by (rule epoch_loop_within_enough) (simp add: z)
  {
    assume lh: "loop_head E s0 sk"
    from loop_head_epochs[OF lh] z
    show "0 \<le> current_epoch sk" and "current_epoch sk \<le> max 0 (max_epochs E)"
      and "iterations (out sk) = nat (current_epoch sk)"
      by (simp_all add: iterations_def)
  }
  {
    assume l: "epoch_loop E s0 = Inr sf"
    from loop_result[OF i l] obtain sh where lh: "loop_head E s0 sh" and
      c: "(sf = sh \<and> current_epoch sh = max 0 (max_epochs E))
        \<or> (current_epoch sh < max_epochs E \<and> epoch_body E sh = Inr (Break sf))"
      by blast
    from loop_head_epochs[OF lh] z have
      b: "0 \<le> current_epoch sh" "current_epoch sh \<le> max 0 (max_epochs E)"
         "iterations (out sh) = nat (current_epoch sh)"
      by (simp_all add: iterations_def)
    from c show "iterations (out sf) \<le> nat (max_epochs E)"
    proof
      assume "sf = sh \<and> current_epoch sh = max 0 (max_epochs E)"
      with b show ?thesis by auto
    next
      assume a: "current_epoch sh < max_epochs E \<and> epoch_body E sh = Inr (Break sf)"
      then have "epoch_body E sh = Inr (Break sf)" by simp
      from epoch_body_Break_fields[OF this] obtain u v w where
        "out sf = out sh @ evaluation_events sh u v w"
        by blast
      with a b show ?thesis by auto
    qed
    from c show "nat (current_epoch sf) \<le> nat (max_epochs E)"
    proof
      assume "sf = sh \<and> current_epoch sh = max 0 (max_epochs E)"
      with b show ?thesis by auto
    next
      assume a: "current_epoch sh < max_epochs E \<and> epoch_body E sh = Inr (Break sf)"
      then have "epoch_body E sh = Inr (Break sf)" by simp
      from epoch_body_Break_fields[OF this] have "current_epoch sf = current_epoch sh"
        by blast
      with a b show ?thesis by auto
    qed
    from c show "current_epoch sf = max 0 (max_epochs E) \<or> convergence sf = Some True"
    proof
      assume "sf = sh \<and> current_epoch sh = max 0 (max_epochs E)"
      then show ?thesis by simp
    next
      assume a: "current_epoch sh < max_epochs E \<and> epoch_body E sh = Inr (Break sf)"
      then have "epoch_body E sh = Inr (Break sf)" by simp
      from epoch_body_Break_fields[OF this] show ?thesis by blast
    qed
  }
qed

text \<open>The concrete run: two epochs with \<open>max_epochs = 2\<close>, neither converging.\<close>

theorem epoch_loop_bounded_witness:
  "epoch_body demo_env demo_s0 = Inr (Next demo_s1)
   \<and> current_epoch demo_s1 = current_epoch demo_s0 + 1
   \<and> max_epochs demo_env \<le> current_epoch demo_s2
   \<and> epoch_loop demo_env demo_s2 = Inr demo_s2
   \<and> initialise demo_env 1 demo_dataset [5] = Inr demo_s0
   \<and> epoch_loop_within (nat (max_epochs demo_env)) demo_env demo_s0 = Some (Inr demo_s2)
   \<and> loop_head demo_env demo_s0 demo_s1
   \<and> iterations (out demo_s1) = nat (current_epoch demo_s1)
   \<and> epoch_loop demo_env demo_s0 = Inr demo_s2
   \<and> iterations (out demo_s2) \<le> nat (max_epochs demo_env)"
proof -
  note t1 = epoch_loop_bounded[of demo_env demo_s0 "Next demo_s1" 1 demo_dataset "[5]" demo_s0
              demo_s1 demo_s2]
  note t2 = epoch_loop_bounded[of demo_env demo_s2 "Next demo_s1" 1 demo_dataset "[5]" demo_s0
              demo_s1 demo_s2]
  have m: "max_epochs demo_env \<le> current_epoch demo_s2" by (simp add: demo_s2_def demo_env_def)
  from t1 demo_epoch have a: "current_epoch demo_s1 = current_epoch demo_s0 + 1" by auto
  from t2 m have b: "epoch_loop demo_env demo_s2 = Inr demo_s2" by blast
  from t1 demo_initialise demo_epoch_loop
  have c: "epoch_loop_within (nat (max_epochs demo_env)) demo_env demo_s0 = Some (Inr demo_s2)"
    by simp
  from t1 demo_initialise demo_loop_head
  have d: "iterations (out demo_s1) = nat (current_epoch demo_s1)" by blast
  from t1 demo_initialise demo_epoch_loop
  have e: "iterations (out demo_s2) \<le> nat (max_epochs demo_env)" by blast
  from a b c d e m demo_epoch demo_initialise demo_loop_head demo_epoch_loop
  show ?thesis by blast
qed

text \<open>
  C4. At every evaluation of the loop condition in a run, the evaluation set is the full
  feature matrix and label vector built from the feature records, unchanged since the
  start, with as many rows as labels; and the training rows and labels have equal length
  provided the initial training set returned by \<open>lss_data.assemble_initial_train_set\<close> has.
  A converging epoch changes none of the four arrays.
\<close>

theorem alignment_invariant:
  assumes "initialise E feature_count feature_dataset g = Inr s0" and "loop_head E s0 sk"
  shows "length (X_test sk) = length (y_test sk)
     \<and> X_test sk = X sk \<and> y_test sk = y sk
     \<and> X sk = X s0 \<and> y sk = y s0 \<and> X_test sk = X_test s0 \<and> y_test sk = y_test s0
     \<and> length (X s0) = length feature_dataset \<and> y s0 = map snd feature_dataset
     \<and> (length (X_train s0) = length (y_train s0) \<longrightarrow> length (X_train sk) = length (y_train sk))
     \<and> (epoch_body E sk = Inr (Break sb) \<longrightarrow>
          X_test sb = X_test s0 \<and> y_test sb = y_test s0
          \<and> X_train sb = X_train sk \<and> y_train sb = y_train sk)"
proof -
  note i = initialise_fields[OF assms(1)]
  note f = loop_head_frame[OF assms(2)]
  note tr = loop_head_train[OF assms(2)]
  from i fill_X_length[of feature_count feature_dataset "X s0"]
  have l: "length (X s0) = length feature_dataset" by simp
  have br: "X_test sb = X_test s0 \<and> y_test sb = y_test s0
          \<and> X_train sb = X_train sk \<and> y_train sb = y_train sk"
    if "epoch_body E sk = Inr (Break sb)"
    using epoch_body_Break_fields[OF that] f by auto
  have al: "length (X_train sk) = length (y_train sk)"
    if "length (X_train s0) = length (y_train s0)"
    using tr that by linarith
  from i f l br al show ?thesis by simp
qed

text \<open>The concrete run after two epochs, and the converging epoch of the run at threshold 0.\<close>

theorem alignment_invariant_witness:
  "initialise demo_env 1 demo_dataset [5] = Inr demo_s0
   \<and> loop_head demo_env demo_s0 demo_s2
   \<and> length (X_train demo_s0) = length (y_train demo_s0)
   \<and> length (X_test demo_s2) = length (y_test demo_s2)
   \<and> X_test demo_s2 = X demo_s0 \<and> y_test demo_s2 = y demo_s0
   \<and> y demo_s0 = map snd demo_dataset
   \<and> length (X_train demo_s2) = length (y_train demo_s2)
   \<and> initialise demo_envB 1 demo_dataset [5] = Inr demo_s0
   \<and> loop_head demo_envB demo_s0 demo_s0
   \<and> epoch_body demo_envB demo_s0 = Inr (Break demo_sB)
   \<and> X_test demo_sB = X_test demo_s0 \<and> y_test demo_sB = y_test demo_s0
   \<and> X_train demo_sB = X_train demo_s0 \<and> y_train demo_sB = y_train demo_s0"
proof -
  have a: "length (X_train demo_s0) = length (y_train demo_s0)" by (simp add: demo_s0_def)
  have b: "loop_head demo_envB demo_s0 demo_s0" by (rule loop_head.first)
  from alignment_invariant[OF demo_initialise demo_loop_head2, of demo_s2] a
  have c: "length (X_test demo_s2) = length (y_test demo_s2)
     \<and> X_test demo_s2 = X demo_s0 \<and> y_test demo_s2 = y demo_s0
     \<and> y demo_s0 = map snd demo_dataset
     \<and> length (X_train demo_s2) = length (y_train demo_s2)"
    by simp
  from alignment_invariant[OF demo_initialise_B b, of demo_sB] demo_epoch_B
  have d: "X_test demo_sB = X_test demo_s0 \<and> y_test demo_sB = y_test demo_s0
     \<and> X_train demo_sB = X_train demo_s0 \<and> y_train demo_sB = y_train demo_s0"
    by blast
  from a b c d demo_initialise demo_loop_head2 demo_initialise_B demo_epoch_B
  show ?thesis by blast
qed

text \<open>
  C5. A completed non-converged epoch lengthens the training set by the number of chosen hard
  samples: never shorter, strictly longer unless none was chosen, and unchanged when none
  was chosen. A converged epoch leaves it as it is. Hence at every evaluation of the loop
  condition the training set is an extension of the initial one.
\<close>

theorem monotonic_growth:
  "(epoch_body E s = Inr (Next s') \<longrightarrow>
      (\<exists>chosen. hard_samples_chosen s' = Some chosen
         \<and> length (X_train s') = length (X_train s) + length chosen
         \<and> length (X_train s) \<le> length (X_train s')
         \<and> (chosen \<noteq> [] \<longrightarrow> length (X_train s) < length (X_train s'))
         \<and> (chosen = [] \<longrightarrow> X_train s' = X_train s)))
   \<and> (epoch_body E s = Inr (Break s') \<longrightarrow> X_train s' = X_train s)
   \<and> (loop_head E s0 sk \<longrightarrow>
        length (X_train s0) \<le> length (X_train sk)
        \<and> take (length (X_train s0)) (X_train sk) = X_train s0)"
proof (intro conjI impI)
  assume "epoch_body E s = Inr (Next s')"
  from epoch_body_Next_fields[OF this] obtain chosen where
    "hard_samples_chosen s' = Some chosen"
    "X_train s' = X_train s @ map (\<lambda>i. X_test s ! i) chosen"
    by blast
  then show "\<exists>chosen. hard_samples_chosen s' = Some chosen
         \<and> length (X_train s') = length (X_train s) + length chosen
         \<and> length (X_train s) \<le> length (X_train s')
         \<and> (chosen \<noteq> [] \<longrightarrow> length (X_train s) < length (X_train s'))
         \<and> (chosen = [] \<longrightarrow> X_train s' = X_train s)"
    by auto
next
  assume "epoch_body E s = Inr (Break s')"
  from epoch_body_Break_fields[OF this] show "X_train s' = X_train s" by blast
next
  assume "loop_head E s0 sk"
  from loop_head_train[OF this] show "length (X_train s0) \<le> length (X_train sk)"
    and "take (length (X_train s0)) (X_train sk) = X_train s0" by simp_all
qed

text \<open>
  The concrete run grows from two to three training samples in its first epoch; the
  converging epoch of the run at threshold 0 leaves the training set as it is.
\<close>

theorem monotonic_growth_witness:
  "epoch_body demo_env demo_s0 = Inr (Next demo_s1)
   \<and> loop_head demo_env demo_s0 demo_s1
   \<and> (\<exists>chosen. hard_samples_chosen demo_s1 = Some chosen
         \<and> length (X_train demo_s1) = length (X_train demo_s0) + length chosen
         \<and> length (X_train demo_s0) \<le> length (X_train demo_s1))
   \<and> length (X_train demo_s0) < length (X_train demo_s1)
   \<and> take (length (X_train demo_s0)) (X_train demo_s1) = X_train demo_s0
   \<and> epoch_body demo_envB demo_s0 = Inr (Break demo_sB)
   \<and> X_train demo_sB = X_train demo_s0"
proof -
  note t = monotonic_growth[of demo_env demo_s0 demo_s1 demo_s0 demo_s1]
  from t demo_epoch obtain chosen where c: "hard_samples_chosen demo_s1 = Some chosen"
         "length (X_train demo_s1) = length (X_train demo_s0) + length chosen"
         "length (X_train demo_s0) \<le> length (X_train demo_s1)"
         "chosen \<noteq> [] \<longrightarrow> length (X_train demo_s0) < length (X_train demo_s1)"
    by blast
  from c(1) have "chosen \<noteq> []" by (auto simp: demo_s1_def)
  with c have lt: "length (X_train demo_s0) < length (X_train demo_s1)" by blast
  from t demo_loop_head have tk: "take (length (X_train demo_s0)) (X_train demo_s1) = X_train demo_s0"
    by blast
  from monotonic_growth[of demo_envB demo_s0 demo_sB demo_s0 demo_s0] demo_epoch_B
  have br: "X_train demo_sB = X_train demo_s0" by blast
  from c lt tk br demo_epoch demo_loop_head demo_epoch_B show ?thesis by blast
qed

text \<open>
  C6. The projection is fitted once, on the full feature matrix, before the loop, and the
  loop only applies it. \<open>pca\<close> is the model that \<open>pca_fit\<close> returned for \<open>X\<close>; at every
  evaluation of the loop condition, after every epoch (converging or not) and after the
  final report it is still that model, the calls recorded so far hold the one fit
  \<open>pca_fit(X)\<close> and no other, and every recorded transform was made with that model. An
  epoch that runs to its end or converges calls \<open>transform\<close> of that model exactly twice,
  first on the current training set and then on the full set; the classifier of the epoch
  is fitted on the first result and predicts on the second. An epoch makes no other call
  before these: it fails where the first transform fails, and it converges whenever the two
  transforms, the fit, the prediction and the metrics return and the metrics pass the
  check.
\<close>

theorem projection_fit_once:
  assumes "initialise E feature_count feature_dataset g = Inr s0"
  shows "fill_X feature_count feature_dataset = Inr (X s0)
     \<and> pca_fit E (X s0) = Inr (pca s0)
     \<and> out s0 = [Call_pca_fit (X s0)]
     \<and> (loop_head E s0 sk \<longrightarrow>
          pca sk = pca s0 \<and> X sk = X s0 \<and> X_test sk = X s0
          \<and> pca_fits (out sk) = [Call_pca_fit (X s0)]
          \<and> length (pca_transforms (out sk)) = 2 * nat (current_epoch sk)
          \<and> list_all (transformed_by (pca s0)) (pca_transforms (out sk))
          \<and> (epoch_body E sk = Inr (Next sn) \<or> epoch_body E sk = Inr (Break sn) \<longrightarrow>
               pca sn = pca s0
               \<and> pca_fits (out sn) = [Call_pca_fit (X s0)]
               \<and> pca_transforms (out sn)
                   = pca_transforms (out sk)
                     @ [Call_pca_transform (pca s0) (X_train sk), Call_pca_transform (pca s0) (X s0)]
               \<and> (\<exists>X_train_pca X_test_pca c yp.
                      pca_transform E (pca s0) (X_train sk) = Inr X_train_pca
                    \<and> pca_transform E (pca s0) (X s0) = Inr X_test_pca
                    \<and> clf_fit E X_train_pca (y_train sk) = Inr c \<and> clf sn = Some c
                    \<and> clf_predict E c X_test_pca = Inr yp \<and> y_pred sn = Some yp))
          \<and> (pca_transform E (pca s0) (X_train sk) = Inl err \<longrightarrow> epoch_body E sk = Inl err)
          \<and> (pca_transform E (pca s0) (X_train sk) = Inr A
               \<and> pca_transform E (pca s0) (X s0) = Inr B
               \<and> clf_fit E A (y_train sk) = Inr fitted
               \<and> clf_predict E fitted B = Inr predicted
               \<and> precision_recall_fscore_support E (y s0) predicted = Inr (precision, recall)
               \<and> convergence_check precision recall (convergence_threshold E) \<longrightarrow>
                 (\<exists>sb. epoch_body E sk = Inr (Break sb))))
     \<and> (lss_train E feature_count feature_dataset g = Inr sf \<longrightarrow>
          pca sf = pca s0 \<and> pca_fits (out sf) = [Call_pca_fit (X s0)]
          \<and> list_all (transformed_by (pca s0)) (pca_transforms (out sf)))"
proof -
  note i = initialise_fields[OF assms]
  from i have o0: "out s0 = [Call_pca_fit (X s0)]" by blast
  have f0: "pca_fits (out s0) = [Call_pca_fit (X s0)]" "pca_transforms (out s0) = []"
    unfolding o0 by (simp_all add: pca_fits_def pca_transforms_def)
  from i have e0: "current_epoch s0 = 0" "X_test s0 = X s0" "y_test s0 = y s0" by blast+
  have head: "pca sk = pca s0 \<and> X sk = X s0 \<and> X_test sk = X s0 \<and> y_test sk = y s0
          \<and> pca_fits (out sk) = [Call_pca_fit (X s0)]
          \<and> length (pca_transforms (out sk)) = 2 * nat (current_epoch sk)
          \<and> list_all (transformed_by (pca s0)) (pca_transforms (out sk))"
    if "loop_head E s0 sk" for sk
    using loop_head_frame[OF that] loop_head_epochs[OF that] loop_head_transforms[OF that] f0 e0
    by simp
  have ep: "pca sn = pca s0
               \<and> pca_fits (out sn) = [Call_pca_fit (X s0)]
               \<and> pca_transforms (out sn)
                   = pca_transforms (out sk)
                     @ [Call_pca_transform (pca s0) (X_train sk), Call_pca_transform (pca s0) (X s0)]
               \<and> (\<exists>X_train_pca X_test_pca c yp.
                      pca_transform E (pca s0) (X_train sk) = Inr X_train_pca
                    \<and> pca_transform E (pca s0) (X s0) = Inr X_test_pca
                    \<and> clf_fit E X_train_pca (y_train sk) = Inr c \<and> clf sn = Some c
                    \<and> clf_predict E c X_test_pca = Inr yp \<and> y_pred sn = Some yp)"
    if lh: "loop_head E s0 sk"
      and eb: "epoch_body E sk = Inr (Next sn) \<or> epoch_body E sk = Inr (Break sn)" for sk sn
  proof -
    note h = head[OF lh]
    from eb show ?thesis
    proof
      assume "epoch_body E sk = Inr (Next sn)"
      from epoch_body_Next_fields[OF this] obtain a b c yp i j where
        "pca_transform E (pca sk) (X_train sk) = Inr a"
        "pca_transform E (pca sk) (X_test sk) = Inr b"
        "clf_fit E a (y_train sk) = Inr c" "clf_predict E c b = Inr yp"
        "clf sn = Some c" "y_pred sn = Some yp"
        "out sn = out sk @ epoch_events sk a b c i j" "pca sn = pca sk"
        by blast
      with h show ?thesis by auto
    next
      assume "epoch_body E sk = Inr (Break sn)"
      from epoch_body_Break_fields[OF this] obtain a b c yp where
        "pca_transform E (pca sk) (X_train sk) = Inr a"
        "pca_transform E (pca sk) (X_test sk) = Inr b"
        "clf_fit E a (y_train sk) = Inr c" "clf_predict E c b = Inr yp"
        "clf sn = Some c" "y_pred sn = Some yp"
        "out sn = out sk @ evaluation_events sk a b c" "pca sn = pca sk"
        by blast
      with h show ?thesis by auto
    qed
  qed
  have fail: "epoch_body E sk = Inl err"
    if "loop_head E s0 sk" "pca_transform E (pca s0) (X_train sk) = Inl err" for sk
    using epoch_body_first_failure[of E sk err] head[OF that(1)] that(2) by simp
  have conv: "\<exists>sb. epoch_body E sk = Inr (Break sb)"
    if "loop_head E s0 sk" "pca_transform E (pca s0) (X_train sk) = Inr A
               \<and> pca_transform E (pca s0) (X s0) = Inr B
               \<and> clf_fit E A (y_train sk) = Inr fitted
               \<and> clf_predict E fitted B = Inr predicted
               \<and> precision_recall_fscore_support E (y s0) predicted = Inr (precision, recall)
               \<and> convergence_check precision recall (convergence_threshold E)" for sk
    using epoch_body_Break_calls[of E sk A B fitted predicted precision recall] head[OF that(1)] that(2)
    by simp
  have fin: "pca sf = pca s0 \<and> pca_fits (out sf) = [Call_pca_fit (X s0)]
          \<and> list_all (transformed_by (pca s0)) (pca_transforms (out sf))"
    if "lss_train E feature_count feature_dataset g = Inr sf"
  proof -
    from that assms obtain s1 where l: "epoch_loop E s0 = Inr s1" and fr: "final_report E s1 = Inr sf"
      by (auto simp: lss_train_def on_success_Inr)
    from loop_result[OF assms l] obtain sh where lh: "loop_head E s0 sh" and
      c: "(s1 = sh \<and> current_epoch sh = max 0 (max_epochs E))
        \<or> (current_epoch sh < max_epochs E \<and> epoch_body E sh = Inr (Break s1))"
      by blast
    have "pca s1 = pca s0 \<and> pca_fits (out s1) = [Call_pca_fit (X s0)]
        \<and> list_all (transformed_by (pca s0)) (pca_transforms (out s1))"
    proof (cases "s1 = sh")
      case True
      with head[OF lh] show ?thesis by simp
    next
      case False
      with c have "epoch_body E sh = Inr (Break s1)" by blast
      with ep[OF lh, of s1] head[OF lh] show ?thesis by simp
    qed
    with final_report_fields[OF fr] show ?thesis
      by (auto simp: pca_fits_def pca_transforms_def)
  qed
  from i have a: "fill_X feature_count feature_dataset = Inr (X s0)" "pca_fit E (X s0) = Inr (pca s0)"
    by blast+
  from a o0 head ep fail conv fin show ?thesis by blast
qed

text \<open>
  The concrete run: its second epoch, which does not converge, and its end; the run with
  threshold 0, whose first epoch converges; and a run whose projection fails to transform.
\<close>

theorem projection_fit_once_witness:
  "initialise demo_env 1 demo_dataset [5] = Inr demo_s0
   \<and> pca_fit demo_env (X demo_s0) = Inr (pca demo_s0)
   \<and> loop_head demo_env demo_s0 demo_s1
   \<and> length (pca_transforms (out demo_s1)) = 2 * nat (current_epoch demo_s1)
   \<and> epoch_body demo_env demo_s1 = Inr (Next demo_s2)
   \<and> pca demo_s2 = pca demo_s0
   \<and> pca_fits (out demo_s2) = [Call_pca_fit (X demo_s0)]
   \<and> pca_transforms (out demo_s2)
       = pca_transforms (out demo_s1)
         @ [Call_pca_transform (pca demo_s0) (X_train demo_s1),
            Call_pca_transform (pca demo_s0) (X demo_s0)]
   \<and> lss_train demo_env 1 demo_dataset [5] = Inr demo_sF
   \<and> pca demo_sF = pca demo_s0
   \<and> pca_fits (out demo_sF) = [Call_pca_fit (X demo_s0)]
   \<and> list_all (transformed_by (pca demo_s0)) (pca_transforms (out demo_sF))
   \<and> initialise demo_envB 1 demo_dataset [5] = Inr demo_s0
   \<and> loop_head demo_envB demo_s0 demo_s0
   \<and> pca_transform demo_envB (pca demo_s0) (X_train demo_s0) = Inr [[0], [1]]
   \<and> pca_transform demo_envB (pca demo_s0) (X demo_s0) = Inr [[0], [1], [2], [3]]
   \<and> clf_fit demo_envB [[0], [1]] (y_train demo_s0) = Inr 0
   \<and> clf_predict demo_envB 0 [[0], [1], [2], [3]] = Inr [0, 1, 0, 0]
   \<and> precision_recall_fscore_support demo_envB (y demo_s0) [0, 1, 0, 0] = Inr ([2 / 3, 1], [1, 1 / 2])
   \<and> convergence_check [2 / 3, 1] [1, 1 / 2] (convergence_threshold demo_envB)
   \<and> (\<exists>sb. epoch_body demo_envB demo_s0 = Inr (Break sb))
   \<and> epoch_body demo_envB demo_s0 = Inr (Break demo_sB)
   \<and> pca_transforms (out demo_sB)
       = pca_transforms (out demo_s0)
         @ [Call_pca_transform (pca demo_s0) (X_train demo_s0),
            Call_pca_transform (pca demo_s0) (X demo_s0)]
   \<and> initialise (demo_env\<lparr>pca_transform := (\<lambda>p m. Inl ExternalError)\<rparr>) 1 demo_dataset [5]
       = Inr demo_s0
   \<and> pca_transform (demo_env\<lparr>pca_transform := (\<lambda>p m. Inl ExternalError)\<rparr>) (pca demo_s0)
       (X_train demo_s0) = Inl ExternalError
   \<and> epoch_body (demo_env\<lparr>pca_transform := (\<lambda>p m. Inl ExternalError)\<rparr>) demo_s0
       = Inl ExternalError"
proof -
  let ?F = "demo_env\<lparr>pca_transform := (\<lambda>p m. Inl ExternalError)\<rparr>"
  note t = projection_fit_once[OF demo_initialise, where sk = demo_s1 and sn = demo_s2
      and sf = demo_sF]
  from t have a: "pca_fit demo_env (X demo_s0) = Inr (pca demo_s0)" by blast
  from t demo_loop_head have
    b: "length (pca_transforms (out demo_s1)) = 2 * nat (current_epoch demo_s1)" by blast
  from t demo_loop_head demo_epoch2 have
    c: "pca demo_s2 = pca demo_s0" "pca_fits (out demo_s2) = [Call_pca_fit (X demo_s0)]"
      "pca_transforms (out demo_s2)
       = pca_transforms (out demo_s1)
         @ [Call_pca_transform (pca demo_s0) (X_train demo_s1),
            Call_pca_transform (pca demo_s0) (X demo_s0)]"
    by blast+
  from t demo_lss_train have
    d: "pca demo_sF = pca demo_s0" "pca_fits (out demo_sF) = [Call_pca_fit (X demo_s0)]"
      "list_all (transformed_by (pca demo_s0)) (pca_transforms (out demo_sF))"
    by blast+
  have calls: "pca_transform demo_envB (pca demo_s0) (X_train demo_s0) = Inr [[0], [1]]"
    "pca_transform demo_envB (pca demo_s0) (X demo_s0) = Inr [[0], [1], [2], [3]]"
    "clf_fit demo_envB [[0], [1]] (y_train demo_s0) = Inr 0"
    "clf_predict demo_envB 0 [[0], [1], [2], [3]] = Inr [0, 1, 0, 0]"
    "precision_recall_fscore_support demo_envB (y demo_s0) [0, 1, 0, 0] = Inr ([2 / 3, 1], [1, 1 / 2])"
    "convergence_check [2 / 3, 1] [1, 1 / 2] (convergence_threshold demo_envB)"
    by code_simp+
  have lb: "loop_head demo_envB demo_s0 demo_s0" by (rule loop_head.first)
  note u = projection_fit_once[OF demo_initialise_B, where sk = demo_s0 and sn = demo_sB
      and A = "[[0], [1]]" and B = "[[0], [1], [2], [3]]" and fitted = 0
      and predicted = "[0, 1, 0, 0]" and precision = "[2 / 3, 1]" and recall = "[1, 1 / 2]"]
  from u lb calls have e: "\<exists>sb. epoch_body demo_envB demo_s0 = Inr (Break sb)" by blast
  from u lb demo_epoch_B have
    f: "pca_transforms (out demo_sB)
       = pca_transforms (out demo_s0)
         @ [Call_pca_transform (pca demo_s0) (X_train demo_s0),
            Call_pca_transform (pca demo_s0) (X demo_s0)]"
    by blast
  have iF: "initialise ?F 1 demo_dataset [5] = Inr demo_s0"
    by (simp add: initialise_def demo_env_def demo_dataset_def demo_s0_def assign_row_def fill_y_def)
  have tF: "pca_transform ?F (pca demo_s0) (X_train demo_s0) = Inl ExternalError" by simp
  have lF: "loop_head ?F demo_s0 demo_s0" by (rule loop_head.first)
  from projection_fit_once[OF iF, where sk = demo_s0 and err = ExternalError] lF tF
  have h: "epoch_body ?F demo_s0 = Inl ExternalError" by blast
  from demo_initialise a demo_loop_head b demo_epoch2 c demo_lss_train d demo_initialise_B lb
    calls e demo_epoch_B f iF tF h
  show ?thesis by blast
qed

text \<open>
  C7. As stated the claim fails: asked for more samples than there are disagreements,
  \<open>random.sample\<close> raises \<open>ValueError\<close> and the epoch, and with it the script, ends in
  that error. With learning rate 2 and two disagreements the requested count is 4.
\<close>

theorem selection_raises_counterexample:
  "y_pred (demo_s0\<lparr>y_pred := Some [0, 0, 0, 0]\<rparr>) = Some [0, 0, 0, 0]
   \<and> length (hard_samples_indexes (y_test demo_s0) [0, 0, 0, 0]) = 2
   \<and> learning_rate demo_env2 = Finite 1 1
   \<and> requested_count (learning_rate demo_env2)
        (length (hard_samples_indexes (y_test demo_s0) [0, 0, 0, 0])) = Inr 4
   \<and> select_hard_samples demo_env2 (demo_s0\<lparr>y_pred := Some [0, 0, 0, 0]\<rparr>) = Inl ValueError
   \<and> epoch_body demo_env2 demo_s0 = Inl ValueError"
  by code_simp

text \<open>
  C7, amended. With aligned evaluation arrays, the selection step completes exactly when
  the requested count \<open>k = int(learning_rate * n)\<close>, computed on doubles, exists and
  satisfies \<open>0 <= k <= n\<close>, \<open>n\<close> being the number of disagreements. A count outside that
  range raises \<open>ValueError\<close> in \<open>random.sample\<close>, and a product that is not-a-number or
  infinite raises in \<open>int()\<close>. In particular the step completes when there is no
  disagreement and the learning rate is a finite double, carrying the training set forward
  unchanged, and when the requested count equals the number of disagreements.
\<close>

theorem selection_completes_iff:
  assumes "y_pred s = Some yp" and "length (X_test s) = length (y_test s)"
    and "n = length (hard_samples_indexes (y_test s) yp)"
  shows "((\<exists>s'. select_hard_samples E s = Inr s') \<longleftrightarrow>
            (\<exists>k. requested_count (learning_rate E) n = Inr k \<and> 0 \<le> k \<and> k \<le> int n))
       \<and> (requested_count (learning_rate E) n = Inr k \<and> \<not> (0 \<le> k \<and> k \<le> int n) \<longrightarrow>
            select_hard_samples E s = Inl ValueError)
       \<and> (requested_count (learning_rate E) n = Inl err \<longrightarrow> select_hard_samples E s = Inl err)
       \<and> (n = 0 \<and> learning_rate E = Finite m e \<and> is_double (Finite m e) \<longrightarrow>
            (\<exists>s'. select_hard_samples E s = Inr s'
               \<and> X_train s' = X_train s \<and> y_train s' = y_train s))
       \<and> (requested_count (learning_rate E) n = Inr (int n) \<longrightarrow>
            (\<exists>s'. select_hard_samples E s = Inr s'
               \<and> length (X_train s') = length (X_train s) + n))"
proof -
  note c = select_hard_samples_cases[OF assms]
  have 1: "(\<exists>s'. select_hard_samples E s = Inr s') \<longleftrightarrow>
            (\<exists>k. requested_count (learning_rate E) n = Inr k \<and> 0 \<le> k \<and> k \<le> int n)"
  proof (cases "requested_count (learning_rate E) n")
    case (Inl err)
    with c[of E err 0] show ?thesis by simp
  next
    case (Inr j)
    with c[of E ValueError j] show ?thesis by auto
  qed
  have 2: "requested_count (learning_rate E) n = Inr k \<and> \<not> (0 \<le> k \<and> k \<le> int n) \<longrightarrow>
            select_hard_samples E s = Inl ValueError"
    using c[of E ValueError k] by blast
  have 3: "requested_count (learning_rate E) n = Inl err \<longrightarrow> select_hard_samples E s = Inl err"
    using c[of E err 0] by blast
  have 4: "\<exists>s'. select_hard_samples E s = Inr s' \<and> X_train s' = X_train s \<and> y_train s' = y_train s"
    if "n = 0 \<and> learning_rate E = Finite m e \<and> is_double (Finite m e)"
  proof -
    from that requested_count_zero[of m e]
    have "requested_count (learning_rate E) n = Inr 0" by simp
    with c[of E ValueError 0] that show ?thesis by auto
  qed
  have 5: "\<exists>s'. select_hard_samples E s = Inr s' \<and> length (X_train s') = length (X_train s) + n"
    if "requested_count (learning_rate E) n = Inr (int n)"
    using c[of E ValueError "int n"] that by auto
  from 1 2 3 4 5 show ?thesis by blast
qed

text \<open>
  The concrete state after prediction, at learning rates 0.5, 2, 1 and not-a-number, and a
  state whose predictions are all right.
\<close>

theorem selection_completes_iff_witness:
  "y_pred (demo_s0\<lparr>y_pred := Some [0, 0, 0, 0]\<rparr>) = Some [0, 0, 0, 0]
   \<and> length (X_test (demo_s0\<lparr>y_pred := Some [0, 0, 0, 0]\<rparr>))
       = length (y_test (demo_s0\<lparr>y_pred := Some [0, 0, 0, 0]\<rparr>))
   \<and> (2 :: nat) = length (hard_samples_indexes (y_test (demo_s0\<lparr>y_pred := Some [0, 0, 0, 0]\<rparr>)) [0, 0, 0, 0])
   \<and> requested_count (learning_rate demo_env) 2 = Inr 1
   \<and> (\<exists>s'. select_hard_samples demo_env (demo_s0\<lparr>y_pred := Some [0, 0, 0, 0]\<rparr>) = Inr s')
   \<and> requested_count (learning_rate demo_env2) 2 = Inr 4
   \<and> select_hard_samples demo_env2 (demo_s0\<lparr>y_pred := Some [0, 0, 0, 0]\<rparr>) = Inl ValueError
   \<and> requested_count (learning_rate (demo_env\<lparr>learning_rate := NaN\<rparr>)) 2 = Inl ValueError
   \<and> select_hard_samples (demo_env\<lparr>learning_rate := NaN\<rparr>)
        (demo_s0\<lparr>y_pred := Some [0, 0, 0, 0]\<rparr>) = Inl ValueError
   \<and> requested_count (learning_rate demo_env1) 2 = Inr (int 2)
   \<and> (\<exists>s'. select_hard_samples demo_env1 (demo_s0\<lparr>y_pred := Some [0, 0, 0, 0]\<rparr>) = Inr s'
          \<and> length (X_train s') = length (X_train (demo_s0\<lparr>y_pred := Some [0, 0, 0, 0]\<rparr>)) + 2)
   \<and> (0 :: nat) = length (hard_samples_indexes (y_test (demo_s0\<lparr>y_pred := Some [0, 1, 1, 0]\<rparr>)) [0, 1, 1, 0])
   \<and> learning_rate demo_env = Finite 1 (- 1) \<and> is_double (Finite 1 (- 1))
   \<and> (\<exists>s'. select_hard_samples demo_env (demo_s0\<lparr>y_pred := Some [0, 1, 1, 0]\<rparr>) = Inr s'
          \<and> X_train s' = X_train (demo_s0\<lparr>y_pred := Some [0, 1, 1, 0]\<rparr>)
          \<and> y_train s' = y_train (demo_s0\<lparr>y_pred := Some [0, 1, 1, 0]\<rparr>))"
proof -
  let ?s = "demo_s0\<lparr>y_pred := Some [0, 0, 0, 0]\<rparr>"
  let ?r = "demo_s0\<lparr>y_pred := Some [0, 1, 1, 0]\<rparr>"
  let ?nan = "demo_env\<lparr>learning_rate := NaN\<rparr>"
  have a: "y_pred ?s = Some [0, 0, 0, 0]" by simp
  have b: "length (X_test ?s) = length (y_test ?s)" by (simp add: demo_s0_def)
  have c: "(2 :: nat) = length (hard_samples_indexes (y_test ?s) [0, 0, 0, 0])"
    by (simp add: demo_s0_def demo_disagreements)
  have d: "requested_count (learning_rate demo_env) 2 = Inr 1" by code_simp
  have f: "requested_count (learning_rate demo_env2) 2 = Inr 4" by code_simp
  have f1: "requested_count (learning_rate demo_env1) 2 = Inr (int 2)" by code_simp
  have fn: "requested_count (learning_rate ?nan) 2 = Inl ValueError" by code_simp
  have a0: "y_pred ?r = Some [0, 1, 1, 0]" by simp
  have b0: "length (X_test ?r) = length (y_test ?r)" by (simp add: demo_s0_def)
  have c0: "(0 :: nat) = length (hard_samples_indexes (y_test ?r) [0, 1, 1, 0])"
    by (simp add: demo_s0_def demo_no_disagreements)
  have lr: "learning_rate demo_env = Finite 1 (- 1)" by (simp add: demo_env_def)
  have dbl: "is_double (Finite 1 (- 1))" by code_simp
  from selection_completes_iff[OF a b c, of demo_env] d
  have g: "\<exists>s'. select_hard_samples demo_env ?s = Inr s'" by auto
  from selection_completes_iff[OF a b c, of demo_env2 4] f
  have h: "select_hard_samples demo_env2 ?s = Inl ValueError" by simp
  from selection_completes_iff[OF a b c, of ?nan _ ValueError] fn
  have hn: "select_hard_samples ?nan ?s = Inl ValueError" by blast
  from selection_completes_iff[OF a b c, of demo_env1] f1
  have i: "\<exists>s'. select_hard_samples demo_env1 ?s = Inr s' \<and> length (X_train s') = length (X_train ?s) + 2"
    by blast
  from selection_completes_iff[OF a0 b0 c0, of demo_env _ _ 1 "- 1"] lr dbl
  have j: "\<exists>s'. select_hard_samples demo_env ?r = Inr s' \<and> X_train s' = X_train ?r \<and> y_train s' = y_train ?r"
    by blast
  from a b c d g f h fn hn f1 i c0 lr dbl j show ?thesis by blast
qed

text \<open>
  C8. As stated the claim fails: on 100 balanced labels a classifier that predicts class 0
  for every row has precision and recall 0 for class 1, and the check at threshold 0 does
  not hold.
\<close>

theorem scenario_A_counterexample:
  "length balanced_labels = 100
   \<and> sk_precision_recall balanced_labels (replicate 100 0) = Inr ([1 / 2, 0], [1, 0])
   \<and> \<not> convergence_check [1 / 2, 0] [1, 0] 0"
  by code_simp

text \<open>
  C8, amended. With scikit-learn's metrics and threshold 0, an epoch converges if and only
  if every label that occurs among the true or the predicted labels has a true positive:
  some row of that label that is predicted as that label.
\<close>

theorem threshold_zero_convergence:
  assumes "precision_recall_fscore_support E = sk_precision_recall"
    and "convergence_threshold E = 0"
    and "train_and_evaluate E s = Inr (s1, precision, recall)"
    and "y_pred s1 = Some yp"
  shows "length yp = length (y_test s)
     \<and> sk_precision_recall (y_test s) yp = Inr (precision, recall)
     \<and> ((\<exists>s'. epoch_body E s = Inr (Break s')) \<longleftrightarrow>
          (\<forall>c\<in>set (y_test s) \<union> set yp. \<exists>i<length (y_test s). y_test s ! i = c \<and> yp ! i = c))"
proof -
  from train_and_evaluate_frame[OF assms(3)] assms(4) assms(1)
  have pr: "sk_precision_recall (y_test s) yp = Inr (precision, recall)" by auto
  then have len: "length (y_test s) = length yp"
    by (auto simp: sk_precision_recall_def split: if_splits)
  from sk_convergence_zero[OF len] pr have
    c: "convergence_check precision recall 0 \<longleftrightarrow>
          (\<forall>c\<in>set (y_test s) \<union> set yp. \<exists>i<length (y_test s). y_test s ! i = c \<and> yp ! i = c)"
    by auto
  have "(\<exists>s'. epoch_body E s = Inr (Break s')) \<longleftrightarrow> convergence_check precision recall 0"
    using assms(3) assms(2)
    by (auto simp: epoch_body_def on_success_Inr split: if_splits)
  with c pr len show ?thesis by simp
qed

text \<open>The concrete run with a classifier that is right once on each class converges.\<close>

theorem threshold_zero_convergence_witness:
  "precision_recall_fscore_support demo_envB = sk_precision_recall
   \<and> convergence_threshold demo_envB = 0
   \<and> train_and_evaluate demo_envB demo_s0 =
       Inr (demo_s0\<lparr>clf := Some 0, y_pred := Some [0, 1, 0, 0],
            out := out demo_s0 @ evaluation_events demo_s0 (X_train demo_s0) (X_test demo_s0) 0\<rparr>, [2 / 3, 1], [1, 1 / 2])
   \<and> sk_precision_recall (y_test demo_s0) [0, 1, 0, 0] = Inr ([2 / 3, 1], [1, 1 / 2])
   \<and> (\<exists>s'. epoch_body demo_envB demo_s0 = Inr (Break s'))"
proof -
  have a: "precision_recall_fscore_support demo_envB = sk_precision_recall"
    by (simp add: demo_envB_def demo_env_def)
  have b: "convergence_threshold demo_envB = 0" by (simp add: demo_envB_def)
  have d: "y_pred (demo_s0\<lparr>clf := Some 0, y_pred := Some [0, 1, 0, 0],
            out := out demo_s0 @ evaluation_events demo_s0 (X_train demo_s0) (X_test demo_s0) 0\<rparr>) = Some [0, 1, 0, 0]"
    by simp
  from threshold_zero_convergence[OF a b demo_train_and_evaluate_B d] demo_true_positives_B
    a b demo_train_and_evaluate_B
  show ?thesis by blast
qed

text \<open>
  C9. With \<open>max_epochs\<close> at most 0 the loop body never runs: the loop returns the initial
  state, in which \<open>clf\<close> is unbound, and the final report then fails on \<open>clf.predict\<close>
  with \<open>NameError\<close>. Whatever happens before (an error while assembling, or in the
  projection of the full set), the script ends in an error and never reaches
  \<open>joblib.dump\<close>.
\<close>

theorem no_epochs_name_error:
  assumes "max_epochs E \<le> 0"
  shows "(\<exists>e. lss_train E feature_count feature_dataset g = Inl e)
       \<and> (initialise E feature_count feature_dataset g = Inr s0 \<longrightarrow>
            epoch_loop E s0 = Inr s0 \<and> clf s0 = None
            \<and> (pca_transform E (pca s0) (X s0) = Inr X_pca \<longrightarrow>
                 lss_train E feature_count feature_dataset g = Inl NameError))"
proof -
  have stop: "epoch_loop E s = Inr s" if "initialise E feature_count feature_dataset g = Inr s" for s
  proof -
    from initialise_fields[OF that] have "current_epoch s = 0" by simp
    with assms show ?thesis by (intro epoch_loop_stop) simp
  qed
  have fr: "final_report E s = Inl NameError \<or> (\<exists>e. final_report E s = Inl e)"
    if "clf s = None" for s
    using final_report_unbound[OF that, of E]
    by (cases "pca_transform E (pca s) (X s)") auto
  show ?thesis
  proof (cases "initialise E feature_count feature_dataset g")
    case (Inl e)
    then show ?thesis by (simp add: lss_train_def)
  next
    case (Inr s)
    from initialise_fields[OF Inr] have c: "clf s = None" by simp
    have l: "lss_train E feature_count feature_dataset g = final_report E s"
      using Inr stop[OF Inr] by (simp add: lss_train_def)
    from fr[OF c] l have 1: "\<exists>e. lss_train E feature_count feature_dataset g = Inl e" by auto
    have 2: "lss_train E feature_count feature_dataset g = Inl NameError"
      if "pca_transform E (pca s) (X s) = Inr X_pca"
      using that l final_report_unbound[OF c, of E] by simp
    from 1 2 Inr stop[OF Inr] c show ?thesis by auto
  qed
qed

text \<open>The concrete run with \<open>--epochs 0\<close> ends in \<open>NameError\<close>.\<close>

theorem no_epochs_name_error_witness:
  "max_epochs demo_env0 \<le> 0
   \<and> initialise demo_env0 1 demo_dataset [5] = Inr demo_s0
   \<and> pca_transform demo_env0 (pca demo_s0) (X demo_s0) = Inr (X demo_s0)
   \<and> epoch_loop demo_env0 demo_s0 = Inr demo_s0
   \<and> clf demo_s0 = None
   \<and> lss_train demo_env0 1 demo_dataset [5] = Inl NameError"
proof -
  have a: "max_epochs demo_env0 \<le> 0" by (simp add: demo_env0_def)
  have b: "pca_transform demo_env0 (pca demo_s0) (X demo_s0) = Inr (X demo_s0)"
    by (simp add: demo_env0_def demo_env_def)
  from no_epochs_name_error[OF a, of 1 demo_dataset "[5]" demo_s0 "X demo_s0"] demo_initialise0 b a
  show ?thesis by blast
qed

text \<open>
  C10. Two patients built without explicit \<open>volumes\<close> and \<open>labelmaps\<close> hold the same two
  dictionaries, the defaults of \<open>__init__\<close>: a volume added through one of them is read
  through the other.
\<close>

theorem default_dictionaries_shared:
  "volumes (Patient_init D id1 None None) = volumes (Patient_init D id2 None None)
   \<and> labelmaps (Patient_init D id1 None None) = labelmaps (Patient_init D id2 None None)
   \<and> read_volumes (add_volume h (Patient_init D id1 None None) v) (Patient_init D id2 None None)
        (scan_id v) = Some v"
  by (simp add: Patient_init_def add_volume_def read_volumes_def)

text \<open>
  By contrast, patients built on dictionaries of their own, as \<open>build_from_folder\<close> does,
  do not see each other's volumes.
\<close>

lemma explicit_dictionaries_separate:
  assumes "new_dict h0 = (a, h1)" and "new_dict h1 = (b, h2)"
  shows "read_volumes (add_volume h2 (Patient_init D id1 (Some a) None) v)
           (Patient_init D id2 (Some b) None) (scan_id v) = None"
  using assms
  by (auto simp: Patient_init_def add_volume_def read_volumes_def new_dict_def)


end
